theory Spec2Isabelle
  imports Main "HOL-Library.Word" "HOL-Library.Multiset"
begin

unbundle bit_operations_syntax

section \<open>The emesh-sp rule database (sp\_mapdb.c)\<close>

text \<open>
  A shallow embedding of \<^verbatim>\<open>src/qca/src/emesh-sp/sp_mapdb.c\<close>: the rule table
  (precedence buckets, id index, rule count), the updater (add, modify, delete, flush),
  the two matchers and the classification scans.
\<close>

type_synonym u8 = "8 word"
type_synonym u16 = "16 word"
type_synonym u32 = "32 word"

text \<open>A MAC address is the six-byte array \<^verbatim>\<open>uint8_t[ETH_ALEN]\<close>, read as one 48-bit value.\<close>

type_synonym mac_addr = "48 word"

subsection \<open>Constants of the Linux kernel\<close>

definition ETH_P_IP :: int where "ETH_P_IP = 0x0800"
definition ETH_P_IPV6 :: int where "ETH_P_IPV6 = 0x86DD"
definition ETH_P_8021Q :: int where "ETH_P_8021Q = 0x8100"
definition IPPROTO_TCP :: u8 where "IPPROTO_TCP = 6"
definition IPPROTO_UDP :: u8 where "IPPROTO_UDP = 17"
definition VLAN_PRIO_MASK :: u16 where "VLAN_PRIO_MASK = 0xe000"
definition VLAN_PRIO_SHIFT :: nat where "VLAN_PRIO_SHIFT = 13"
definition VLAN_VID_MASK :: u16 where "VLAN_VID_MASK = 0x0fff"

text \<open>Sizes of \<^verbatim>\<open>struct iphdr\<close>, \<^verbatim>\<open>struct tcphdr\<close> and \<^verbatim>\<open>struct udphdr\<close>.\<close>

definition sizeof_iphdr :: nat where "sizeof_iphdr = 20"
definition sizeof_tcphdr :: nat where "sizeof_tcphdr = 20"
definition sizeof_udphdr :: nat where "sizeof_udphdr = 8"

text \<open>
  \<^verbatim>\<open>ntohs\<close> on the little-endian target (ipq50xx): the two bytes are swapped.
  \<^verbatim>\<open>htons\<close> is the same function.
\<close>

definition ntohs :: "u16 \<Rightarrow> u16" where
  "ntohs x = (push_bit 8 x) OR (drop_bit 8 x)"

definition ether_addr_equal :: "mac_addr \<Rightarrow> mac_addr \<Rightarrow> bool" where
  "ether_addr_equal a b = (a = b)"

subsection \<open>Constants of sp\_mapdb.h and sp\_types.h\<close>

text \<open>
  Modelled from the spec: the headers \<^verbatim>\<open>sp_mapdb.h\<close> and \<^verbatim>\<open>sp_types.h\<close> are missing
  from the sources, so the values of their macros are fixed here. The source itself
  gives the top bucket index \<^verbatim>\<open>0xFE\<close> (comment of \<^verbatim>\<open>sp_mapdb_ruletable_search\<close>) and
  the valid range 0-9 of a rule output (warning of \<^verbatim>\<open>sp_mapdb_rule_add\<close>); the spec
  names the sentinels "use link-layer priority", "use DSCP" and "no match", the bound
  \<^verbatim>\<open>RULE_MAX\<close> and the invalid-value sentinels. Of these values the general theorems
  below use only: the number \<^verbatim>\<open>0xFF\<close> of buckets (so that every precedence byte
  other than the sentinel is a valid index), and that the case labels of one
  \<^verbatim>\<open>switch\<close> differ (the three output sentinels; the two commands).
\<close>

definition SP_MAPDB_RULE_MAX_PRECEDENCENUM :: nat where
  "SP_MAPDB_RULE_MAX_PRECEDENCENUM = 0xFF"
definition SP_MAPDB_RULE_MAX :: nat where
  "SP_MAPDB_RULE_MAX = 0xFF"
definition SP_MAPDB_RULE_DEFAULT_PCP :: u8 where
  "SP_MAPDB_RULE_DEFAULT_PCP = 0"
definition SP_MAPDB_USE_UP :: u8 where
  "SP_MAPDB_USE_UP = 8"
definition SP_MAPDB_USE_DSCP :: u8 where
  "SP_MAPDB_USE_DSCP = 9"
definition SP_MAPDB_NO_MATCH :: u8 where
  "SP_MAPDB_NO_MATCH = 10"

definition SP_RULE_INVALID_RULE_ID :: u32 where
  "SP_RULE_INVALID_RULE_ID = 0xFFFFFFFF"
definition SP_RULE_INVALID_PRIORITY :: u8 where
  "SP_RULE_INVALID_PRIORITY = 0xFF"
definition SP_RULE_INVALID_DSCP_REMARK :: u8 where
  "SP_RULE_INVALID_DSCP_REMARK = 0xFF"
definition SP_RULE_INVALID_VLAN_PCP_REMARK :: u8 where
  "SP_RULE_INVALID_VLAN_PCP_REMARK = 0xFF"
definition SP_RULE_INVALID_SERVICE_CLASS_ID :: u8 where
  "SP_RULE_INVALID_SERVICE_CLASS_ID = 0xFF"
definition SP_RULE_INVALID_MSCS_TID_BITMAP :: u8 where
  "SP_RULE_INVALID_MSCS_TID_BITMAP = 0"
definition SP_RULE_INVALID_VLAN_TCI :: u16 where
  "SP_RULE_INVALID_VLAN_TCI = 0xFFFF"

text \<open>
  Modelled from the spec: the rule types MESH, SAWF, SAWF\_SCS, SCS and MSCS of
  \<^verbatim>\<open>sp_types.h\<close>. The field \<^verbatim>\<open>classifier_type\<close> is a \<^verbatim>\<open>uint8_t\<close> that the
  netlink handler fills from an unchecked byte, so the type stays a byte here.
\<close>

definition SP_RULE_TYPE_MESH :: u8 where "SP_RULE_TYPE_MESH = 0"
definition SP_RULE_TYPE_SAWF :: u8 where "SP_RULE_TYPE_SAWF = 1"
definition SP_RULE_TYPE_SCS :: u8 where "SP_RULE_TYPE_SCS = 2"
definition SP_RULE_TYPE_MSCS :: u8 where "SP_RULE_TYPE_MSCS = 3"
definition SP_RULE_TYPE_SAWF_SCS :: u8 where "SP_RULE_TYPE_SAWF_SCS = 4"

text \<open>
  Modelled from the spec: the commands of an update request
  (\<^verbatim>\<open>command: enum{ADD, DELETE}\<close>); \<^verbatim>\<open>cmd\<close> is an unchecked byte as well.
\<close>

definition SP_MAPDB_ADD_REMOVE_FILTER_DELETE :: u8 where
  "SP_MAPDB_ADD_REMOVE_FILTER_DELETE = 0"
definition SP_MAPDB_ADD_REMOVE_FILTER_ADD :: u8 where
  "SP_MAPDB_ADD_REMOVE_FILTER_ADD = 1"

text \<open>
  Modelled from the spec: the match flags of MESH rules (\<^verbatim>\<open>match_flags: bitset\<close>, one
  bit per field and one paired sense bit per field). Each flag is one bit of its own.
\<close>

definition SP_RULE_FLAG_MATCH_ALWAYS_TRUE :: u32 where
  "SP_RULE_FLAG_MATCH_ALWAYS_TRUE = 0x01"
definition SP_RULE_FLAG_MATCH_UP :: u32 where
  "SP_RULE_FLAG_MATCH_UP = 0x02"
definition SP_RULE_FLAG_MATCH_UP_SENSE :: u32 where
  "SP_RULE_FLAG_MATCH_UP_SENSE = 0x04"
definition SP_RULE_FLAG_MATCH_SOURCE_MAC :: u32 where
  "SP_RULE_FLAG_MATCH_SOURCE_MAC = 0x08"
definition SP_RULE_FLAG_MATCH_SOURCE_MAC_SENSE :: u32 where
  "SP_RULE_FLAG_MATCH_SOURCE_MAC_SENSE = 0x10"
definition SP_RULE_FLAG_MATCH_DST_MAC :: u32 where
  "SP_RULE_FLAG_MATCH_DST_MAC = 0x20"
definition SP_RULE_FLAG_MATCH_DST_MAC_SENSE :: u32 where
  "SP_RULE_FLAG_MATCH_DST_MAC_SENSE = 0x40"
definition SP_RULE_FLAG_MATCH_SRC_IPV4 :: u32 where
  "SP_RULE_FLAG_MATCH_SRC_IPV4 = 0x80"
definition SP_RULE_FLAG_MATCH_SRC_IPV4_SENSE :: u32 where
  "SP_RULE_FLAG_MATCH_SRC_IPV4_SENSE = 0x100"
definition SP_RULE_FLAG_MATCH_DST_IPV4 :: u32 where
  "SP_RULE_FLAG_MATCH_DST_IPV4 = 0x200"
definition SP_RULE_FLAG_MATCH_DST_IPV4_SENSE :: u32 where
  "SP_RULE_FLAG_MATCH_DST_IPV4_SENSE = 0x400"
definition SP_RULE_FLAG_MATCH_SRC_PORT :: u32 where
  "SP_RULE_FLAG_MATCH_SRC_PORT = 0x800"
definition SP_RULE_FLAG_MATCH_SRC_PORT_SENSE :: u32 where
  "SP_RULE_FLAG_MATCH_SRC_PORT_SENSE = 0x1000"
definition SP_RULE_FLAG_MATCH_DST_PORT :: u32 where
  "SP_RULE_FLAG_MATCH_DST_PORT = 0x2000"
definition SP_RULE_FLAG_MATCH_DST_PORT_SENSE :: u32 where
  "SP_RULE_FLAG_MATCH_DST_PORT_SENSE = 0x4000"
definition SP_RULE_FLAG_MATCH_PROTOCOL :: u32 where
  "SP_RULE_FLAG_MATCH_PROTOCOL = 0x8000"
definition SP_RULE_FLAG_MATCH_PROTOCOL_SENSE :: u32 where
  "SP_RULE_FLAG_MATCH_PROTOCOL_SENSE = 0x10000"
definition SP_RULE_FLAG_MATCH_VLAN_ID :: u32 where
  "SP_RULE_FLAG_MATCH_VLAN_ID = 0x20000"
definition SP_RULE_FLAG_MATCH_VLAN_ID_SENSE :: u32 where
  "SP_RULE_FLAG_MATCH_VLAN_ID_SENSE = 0x40000"
definition SP_RULE_FLAG_MATCH_DSCP :: u32 where
  "SP_RULE_FLAG_MATCH_DSCP = 0x80000"
definition SP_RULE_FLAG_MATCH_DSCP_SENSE :: u32 where
  "SP_RULE_FLAG_MATCH_DSCP_SENSE = 0x100000"

text \<open>
  Modelled from the spec: the match flags of the SAWF family (no sense bit; a companion
  mask flag for the IP addresses). Each flag is one bit of its own.
\<close>

definition SP_RULE_FLAG_MATCH_SAWF_IP_VERSION_TYPE :: u32 where
  "SP_RULE_FLAG_MATCH_SAWF_IP_VERSION_TYPE = 0x01"
definition SP_RULE_FLAG_MATCH_SAWF_DST_MAC :: u32 where
  "SP_RULE_FLAG_MATCH_SAWF_DST_MAC = 0x02"
definition SP_RULE_FLAG_MATCH_SAWF_DST_PORT :: u32 where
  "SP_RULE_FLAG_MATCH_SAWF_DST_PORT = 0x04"
definition SP_RULE_FLAG_MATCH_SAWF_DST_PORT_RANGE_START :: u32 where
  "SP_RULE_FLAG_MATCH_SAWF_DST_PORT_RANGE_START = 0x08"
definition SP_RULE_FLAG_MATCH_SAWF_DST_PORT_RANGE_END :: u32 where
  "SP_RULE_FLAG_MATCH_SAWF_DST_PORT_RANGE_END = 0x10"
definition SP_RULE_FLAG_MATCH_SAWF_DST_IPV4 :: u32 where
  "SP_RULE_FLAG_MATCH_SAWF_DST_IPV4 = 0x20"
definition SP_RULE_FLAG_MATCH_SAWF_DST_IPV4_MASK :: u32 where
  "SP_RULE_FLAG_MATCH_SAWF_DST_IPV4_MASK = 0x40"
definition SP_RULE_FLAG_MATCH_SAWF_SOURCE_MAC :: u32 where
  "SP_RULE_FLAG_MATCH_SAWF_SOURCE_MAC = 0x80"
definition SP_RULE_FLAG_MATCH_SAWF_SRC_IPV6 :: u32 where
  "SP_RULE_FLAG_MATCH_SAWF_SRC_IPV6 = 0x100"
definition SP_RULE_FLAG_MATCH_SAWF_SRC_IPV6_MASK :: u32 where
  "SP_RULE_FLAG_MATCH_SAWF_SRC_IPV6_MASK = 0x200"
definition SP_RULE_FLAG_MATCH_SAWF_DST_IPV6 :: u32 where
  "SP_RULE_FLAG_MATCH_SAWF_DST_IPV6 = 0x400"
definition SP_RULE_FLAG_MATCH_SAWF_DST_IPV6_MASK :: u32 where
  "SP_RULE_FLAG_MATCH_SAWF_DST_IPV6_MASK = 0x800"
definition SP_RULE_FLAG_MATCH_SAWF_SRC_PORT :: u32 where
  "SP_RULE_FLAG_MATCH_SAWF_SRC_PORT = 0x1000"
definition SP_RULE_FLAG_MATCH_SAWF_SRC_PORT_RANGE_START :: u32 where
  "SP_RULE_FLAG_MATCH_SAWF_SRC_PORT_RANGE_START = 0x2000"
definition SP_RULE_FLAG_MATCH_SAWF_SRC_PORT_RANGE_END :: u32 where
  "SP_RULE_FLAG_MATCH_SAWF_SRC_PORT_RANGE_END = 0x4000"
definition SP_RULE_FLAG_MATCH_SAWF_SRC_IPV4 :: u32 where
  "SP_RULE_FLAG_MATCH_SAWF_SRC_IPV4 = 0x8000"
definition SP_RULE_FLAG_MATCH_SAWF_SRC_IPV4_MASK :: u32 where
  "SP_RULE_FLAG_MATCH_SAWF_SRC_IPV4_MASK = 0x10000"
definition SP_RULE_FLAG_MATCH_SAWF_PROTOCOL :: u32 where
  "SP_RULE_FLAG_MATCH_SAWF_PROTOCOL = 0x20000"
definition SP_RULE_FLAG_MATCH_SAWF_DSCP :: u32 where
  "SP_RULE_FLAG_MATCH_SAWF_DSCP = 0x40000"
definition SP_RULE_FLAG_MATCH_SAWF_VLAN_PCP :: u32 where
  "SP_RULE_FLAG_MATCH_SAWF_VLAN_PCP = 0x80000"
definition SP_RULE_FLAG_MATCH_SAWF_VLAN_ID :: u32 where
  "SP_RULE_FLAG_MATCH_SAWF_VLAN_ID = 0x100000"
definition SP_RULE_FLAG_MATCH_SCS_SPI :: u32 where
  "SP_RULE_FLAG_MATCH_SCS_SPI = 0x200000"

subsection \<open>Rules, packets and the rule table\<close>

text \<open>
  \<^verbatim>\<open>struct sp_rule_inner\<close>: the match fields and the outputs of a rule. The field
  widths are those of the netlink getters that fill them in \<^verbatim>\<open>sp_mapdb_rule_receive\<close>;
  an IPv6 address, \<^verbatim>\<open>uint32_t[4]\<close>, is one 128-bit value.
\<close>

record sp_rule_inner =
  flags :: u32
  flags_sawf :: u32
  user_priority :: u8
  sa :: mac_addr
  da :: mac_addr
  vlan_id :: u16
  vlan_pcp :: u8
  dscp :: u8
  protocol_number :: u8
  ip_version_type :: u8
  ifindex :: u8
  src_port :: u16
  dst_port :: u16
  src_port_range_start :: u16
  src_port_range_end :: u16
  dst_port_range_start :: u16
  dst_port_range_end :: u16
  src_ipv4_addr :: u32
  src_ipv4_addr_mask :: u32
  dst_ipv4_addr :: u32
  dst_ipv4_addr_mask :: u32
  src_ipv6_addr :: "128 word"
  src_ipv6_addr_mask :: "128 word"
  dst_ipv6_addr :: "128 word"
  dst_ipv6_addr_mask :: "128 word"
  match_pattern_value :: u32
  match_pattern_mask :: u32
  rule_output :: u8
  dscp_remark :: u8
  vlan_pcp_remark :: u8
  service_class_id :: u8
  mscs_tid_bitmap :: u8
  priority_limit :: u8
  service_interval_dl :: u8
  burst_size_dl :: u32
  service_interval_ul :: u8
  burst_size_ul :: u32

text \<open>\<^verbatim>\<open>struct sp_rule\<close>; the field \<^verbatim>\<open>id\<close> is \<open>id_rule\<close> here.\<close>

record sp_rule =
  id_rule :: u32
  classifier_type :: u8
  rule_precedence :: u8
  cmd :: u8
  inner :: sp_rule_inner

text \<open>
  What the code reads of a \<^verbatim>\<open>struct sk_buff\<close>: the priority, the protocol (big-endian,
  as stored), the Ethernet and VLAN headers at \<^verbatim>\<open>skb->data\<close>, the number of bytes
  \<^verbatim>\<open>pskb_may_pull\<close> can make available, and the IPv4, IPv6, TCP and UDP header fields.
\<close>

record sk_buff =
  skb_priority :: u32
  skb_protocol :: u16
  eth_h_proto :: u16
  vlan_h_TCI :: u16
  skb_pull_len :: nat
  iph_tos :: u8
  iph_saddr :: u32
  iph_daddr :: u32
  iph_protocol :: u8
  ipv6h_dsfield :: u8
  tcph_source :: u16
  tcph_dest :: u16
  udph_source :: u16
  udph_dest :: u16

definition pskb_may_pull :: "sk_buff \<Rightarrow> nat \<Rightarrow> bool" where
  "pskb_may_pull skb len = (len \<le> skb_pull_len skb)"

text \<open>
  \<^verbatim>\<open>struct sp_mapdb_rule_manager\<close>: \<open>prec_map\<close> is the array of precedence buckets
  (each the list of its rule nodes, head first), \<open>rule_id_hashmap\<close> the hash entries
  (each pointing to a rule node), \<open>rule_count\<close> the counter. \<open>single_writer\<close> is the
  bit lock of \<^verbatim>\<open>sp_mapdb_rule_update\<close>.
\<close>

record sp_mapdb_rule_manager =
  prec_map :: "nat \<Rightarrow> sp_rule list"
  rule_id_hashmap :: "sp_rule list"
  rule_count :: nat
  single_writer :: bool

subsection \<open>The generic (MESH) matcher: sp\_mapdb\_rule\_match\<close>

text \<open>
  The function is one sequence of checks, each of which may return \<^verbatim>\<open>false\<close> at once.
  It is written here as a chain: every definition is the code from one check to the end
  of the function. \<^verbatim>\<open>compare_result ^ sense\<close> on two booleans is their difference.
\<close>

text \<open>Lines 468-494: the two port checks, on the ports read before.\<close>

definition rule_match_ports :: "sp_rule \<Rightarrow> u16 \<Rightarrow> u16 \<Rightarrow> bool" where
  "rule_match_ports rule src_port_skb dst_port_skb =
    (let fl = flags (inner rule) in
     if fl AND SP_RULE_FLAG_MATCH_SRC_PORT \<noteq> 0 \<and>
        \<not> ((ntohs src_port_skb = src_port (inner rule)) \<noteq>
            (fl AND SP_RULE_FLAG_MATCH_SRC_PORT_SENSE \<noteq> 0))
     then False
     else if fl AND SP_RULE_FLAG_MATCH_DST_PORT \<noteq> 0 \<and>
        \<not> ((ntohs dst_port_skb = dst_port (inner rule)) \<noteq>
            (fl AND SP_RULE_FLAG_MATCH_DST_PORT_SENSE \<noteq> 0))
     then False
     else True)"

text \<open>
  Lines 446-466: the ports are those of the TCP or UDP header when the IP protocol is
  TCP or UDP (and the header can be pulled), and stay 0 otherwise.
\<close>

definition rule_match_l4 :: "sk_buff \<Rightarrow> sp_rule \<Rightarrow> bool" where
  "rule_match_l4 skb rule =
    (if iph_protocol skb = IPPROTO_TCP then
       (if \<not> pskb_may_pull skb sizeof_tcphdr then False
        else rule_match_ports rule (tcph_source skb) (tcph_dest skb))
     else if iph_protocol skb = IPPROTO_UDP then
       (if \<not> pskb_may_pull skb sizeof_udphdr then False
        else rule_match_ports rule (udph_source skb) (udph_dest skb))
     else rule_match_ports rule 0 0)"

text \<open>Lines 433-444.\<close>

definition rule_match_protocol :: "sk_buff \<Rightarrow> sp_rule \<Rightarrow> bool" where
  "rule_match_protocol skb rule =
    (let fl = flags (inner rule) in
     if fl AND SP_RULE_FLAG_MATCH_PROTOCOL \<noteq> 0 \<and>
        \<not> ((iph_protocol skb = protocol_number (inner rule)) \<noteq>
            (fl AND SP_RULE_FLAG_MATCH_PROTOCOL_SENSE \<noteq> 0))
     then False
     else rule_match_l4 skb rule)"

text \<open>Lines 420-431.\<close>

definition rule_match_dst_ipv4 :: "sk_buff \<Rightarrow> sp_rule \<Rightarrow> bool" where
  "rule_match_dst_ipv4 skb rule =
    (let fl = flags (inner rule) in
     if fl AND SP_RULE_FLAG_MATCH_DST_IPV4 \<noteq> 0 \<and>
        \<not> ((iph_daddr skb = dst_ipv4_addr (inner rule)) \<noteq>
            (fl AND SP_RULE_FLAG_MATCH_DST_IPV4_SENSE \<noteq> 0))
     then False
     else rule_match_protocol skb rule)"

text \<open>Lines 407-418.\<close>

definition rule_match_src_ipv4 :: "sk_buff \<Rightarrow> sp_rule \<Rightarrow> bool" where
  "rule_match_src_ipv4 skb rule =
    (let fl = flags (inner rule) in
     if fl AND SP_RULE_FLAG_MATCH_SRC_IPV4 \<noteq> 0 \<and>
        \<not> ((iph_saddr skb = src_ipv4_addr (inner rule)) \<noteq>
            (fl AND SP_RULE_FLAG_MATCH_SRC_IPV4_SENSE \<noteq> 0))
     then False
     else rule_match_dst_ipv4 skb rule)"

text \<open>Lines 389-405: \<^verbatim>\<open>uint16_t dscp = ipv4_get_dsfield(ip_hdr(skb)) >> 2\<close>.\<close>

definition rule_match_dscp :: "sk_buff \<Rightarrow> sp_rule \<Rightarrow> bool" where
  "rule_match_dscp skb rule =
    (let fl = flags (inner rule);
         dscp_skb = (ucast (drop_bit 2 (iph_tos skb)) :: u16) in
     if fl AND SP_RULE_FLAG_MATCH_DSCP \<noteq> 0 \<and>
        \<not> ((dscp_skb = ucast (dscp (inner rule))) \<noteq>
            (fl AND SP_RULE_FLAG_MATCH_DSCP_SENSE \<noteq> 0))
     then False
     else rule_match_src_ipv4 skb rule)"

text \<open>
  Lines 371-387: with a flag of the IPv4 group the frame must be IPv4 and its IP header
  must be there; with none of them the match is complete.
\<close>

definition rule_match_ip_hdr :: "sk_buff \<Rightarrow> sp_rule \<Rightarrow> bool" where
  "rule_match_ip_hdr skb rule =
    (let fl = flags (inner rule) in
     if fl AND (SP_RULE_FLAG_MATCH_SRC_IPV4 OR SP_RULE_FLAG_MATCH_DST_IPV4 OR
                SP_RULE_FLAG_MATCH_SRC_PORT OR SP_RULE_FLAG_MATCH_DST_PORT OR
                SP_RULE_FLAG_MATCH_DSCP OR SP_RULE_FLAG_MATCH_PROTOCOL) \<noteq> 0
     then
       (if skb_protocol skb = ntohs (word_of_int ETH_P_IP) then
          (if \<not> pskb_may_pull skb sizeof_iphdr then False
           else rule_match_dscp skb rule)
        else False)
     else True)"

text \<open>
  Lines 347-369: \<^verbatim>\<open>int16_t vlan_id = ntohs(vhdr->h_vlan_TCI)\<close> is compared, as an
  \<^verbatim>\<open>int\<close>, with the rule's 16-bit \<^verbatim>\<open>vlan_id\<close>.
\<close>

definition rule_match_vlan_id :: "sk_buff \<Rightarrow> sp_rule \<Rightarrow> bool" where
  "rule_match_vlan_id skb rule =
    (let fl = flags (inner rule) in
     if fl AND SP_RULE_FLAG_MATCH_VLAN_ID \<noteq> 0 then
       (let ether_type = ntohs (eth_h_proto skb) in
        if uint ether_type = ETH_P_8021Q then
          (let vlan_id_skb = sint (ntohs (vlan_h_TCI skb));
               compare_result = (vlan_id_skb = uint (vlan_id (inner rule)));
               sense = (fl AND SP_RULE_FLAG_MATCH_VLAN_ID_SENSE \<noteq> 0) in
           if \<not> (compare_result \<noteq> sense) then False
           else rule_match_ip_hdr skb rule)
        else False)
     else rule_match_ip_hdr skb rule)"

text \<open>Lines 334-345.\<close>

definition rule_match_dst_mac :: "sk_buff \<Rightarrow> sp_rule \<Rightarrow> mac_addr \<Rightarrow> bool" where
  "rule_match_dst_mac skb rule dmac =
    (let fl = flags (inner rule) in
     if fl AND SP_RULE_FLAG_MATCH_DST_MAC \<noteq> 0 then
       (let compare_result = ether_addr_equal dmac (da (inner rule));
            sense = (fl AND SP_RULE_FLAG_MATCH_DST_MAC_SENSE \<noteq> 0) in
        if \<not> (compare_result \<noteq> sense) then False
        else rule_match_vlan_id skb rule)
     else rule_match_vlan_id skb rule)"

text \<open>Lines 321-332.\<close>

definition rule_match_source_mac ::
    "sk_buff \<Rightarrow> sp_rule \<Rightarrow> mac_addr \<Rightarrow> mac_addr \<Rightarrow> bool" where
  "rule_match_source_mac skb rule smac dmac =
    (let fl = flags (inner rule) in
     if fl AND SP_RULE_FLAG_MATCH_SOURCE_MAC \<noteq> 0 then
       (let compare_result = ether_addr_equal smac (sa (inner rule));
            sense = (fl AND SP_RULE_FLAG_MATCH_SOURCE_MAC_SENSE \<noteq> 0) in
        if \<not> (compare_result \<noteq> sense) then False
        else rule_match_dst_mac skb rule dmac)
     else rule_match_dst_mac skb rule dmac)"

text \<open>Lines 309-319: \<^verbatim>\<open>skb->priority\<close> (32 bits) against the rule's byte.\<close>

definition rule_match_up ::
    "sk_buff \<Rightarrow> sp_rule \<Rightarrow> mac_addr \<Rightarrow> mac_addr \<Rightarrow> bool" where
  "rule_match_up skb rule smac dmac =
    (let fl = flags (inner rule) in
     if fl AND SP_RULE_FLAG_MATCH_UP \<noteq> 0 then
       (let compare_result = (skb_priority skb = ucast (user_priority (inner rule)));
            sense = (fl AND SP_RULE_FLAG_MATCH_UP_SENSE \<noteq> 0) in
        if \<not> (compare_result \<noteq> sense) then False
        else rule_match_source_mac skb rule smac dmac)
     else rule_match_source_mac skb rule smac dmac)"

text \<open>Lines 291-307: the always-true flag answers before any field is looked at.\<close>

definition sp_mapdb_rule_match ::
    "sk_buff \<Rightarrow> sp_rule \<Rightarrow> mac_addr \<Rightarrow> mac_addr \<Rightarrow> bool" where
  "sp_mapdb_rule_match skb rule smac dmac =
    (if flags (inner rule) AND SP_RULE_FLAG_MATCH_ALWAYS_TRUE \<noteq> 0 then True
     else rule_match_up skb rule smac dmac)"

subsection \<open>MESH classification: sp\_mapdb\_ruletable\_search\<close>

text \<open>
  The inner loop \<^verbatim>\<open>list_for_each_entry_rcu\<close> over one bucket: the output of the first
  MESH rule that matches, or nothing.
\<close>

fun ruletable_search_bucket ::
    "sk_buff \<Rightarrow> mac_addr \<Rightarrow> mac_addr \<Rightarrow> sp_rule list \<Rightarrow> u8 option" where
  "ruletable_search_bucket skb smac dmac [] = None"
| "ruletable_search_bucket skb smac dmac (curnode # rest) =
    (if classifier_type curnode = SP_RULE_TYPE_MESH \<and>
        sp_mapdb_rule_match skb curnode smac dmac
     then Some (rule_output (inner curnode))
     else ruletable_search_bucket skb smac dmac rest)"

text \<open>
  The outer loop \<^verbatim>\<open>for (i = n - 1; i >= 0; i--)\<close>: the argument is the number \<open>n\<close> of
  buckets still to visit, the next one being bucket \<open>n - 1\<close>.
\<close>

fun ruletable_search_loop ::
    "sk_buff \<Rightarrow> mac_addr \<Rightarrow> mac_addr \<Rightarrow> (nat \<Rightarrow> sp_rule list) \<Rightarrow> nat \<Rightarrow> u8 option" where
  "ruletable_search_loop skb smac dmac pm 0 = None"
| "ruletable_search_loop skb smac dmac pm (Suc i) =
    (case ruletable_search_bucket skb smac dmac (pm i) of
       Some output \<Rightarrow> Some output
     | None \<Rightarrow> ruletable_search_loop skb smac dmac pm i)"

text \<open>The label \<^verbatim>\<open>set_output\<close>: the two switches of lines 545-584.\<close>

definition set_output :: "sk_buff \<Rightarrow> u8 \<Rightarrow> u8" where
  "set_output skb output =
    (if output = SP_MAPDB_USE_UP then ucast (skb_priority skb)
     else if output = SP_MAPDB_USE_DSCP then
       (let protocol = uint (ntohs (skb_protocol skb)) in
        if protocol = ETH_P_IP then drop_bit 5 (iph_tos skb)
        else if protocol = ETH_P_IPV6 then drop_bit 5 (ipv6h_dsfield skb)
        else SP_MAPDB_RULE_DEFAULT_PCP)
     else if output = SP_MAPDB_NO_MATCH then SP_MAPDB_RULE_DEFAULT_PCP
     else output)"

definition sp_mapdb_ruletable_search ::
    "sp_mapdb_rule_manager \<Rightarrow> sk_buff \<Rightarrow> mac_addr \<Rightarrow> mac_addr \<Rightarrow> u8" where
  "sp_mapdb_ruletable_search rule_manager skb smac dmac =
    (if rule_count rule_manager = 0 then set_output skb SP_MAPDB_USE_DSCP
     else
       (case ruletable_search_loop skb smac dmac (prec_map rule_manager)
               SP_MAPDB_RULE_MAX_PRECEDENCENUM of
          Some output \<Rightarrow> set_output skb output
        | None \<Rightarrow> set_output skb SP_MAPDB_NO_MATCH))"

subsection \<open>The SAWF-family matcher: sp\_mapdb\_rule\_match\_sawf\<close>

text \<open>
  \<^verbatim>\<open>struct sp_rule_input_params\<close>, with its members \<^verbatim>\<open>src\<close> and \<^verbatim>\<open>dst\<close>. The
  IPv4 and the IPv6 address of an endpoint (\<^verbatim>\<open>ip.ipv4_addr\<close>, \<^verbatim>\<open>ip.ipv6_addr\<close>) are
  kept as two fields; an IPv6 address, \<^verbatim>\<open>uint32_t[4]\<close>, is one 128-bit value.
\<close>

record sp_rule_input_endpoint =
  ipv4_addr :: u32
  ipv6_addr :: "128 word"
  mac :: mac_addr
  port :: u16

record sp_rule_input_params =
  src :: sp_rule_input_endpoint
  dst :: sp_rule_input_endpoint
  params_ip_version_type :: u8
  dev_addr :: mac_addr
  params_ifindex :: u8
  params_protocol :: u8
  params_dscp :: u8
  vlan_tci :: u16
  spi :: u32

text \<open>
  The matcher writes to \<^verbatim>\<open>*params\<close> (lines 882, 909-912, 928-931, 972 and 1045), so it
  returns the parameters next to its answer. As above, every definition is the code
  from one check to the end of the function.
\<close>

text \<open>Lines 1041-1053.\<close>

definition match_sawf_spi ::
    "sp_rule \<Rightarrow> sp_rule_input_params \<Rightarrow> bool \<times> sp_rule_input_params" where
  "match_sawf_spi rule params =
    (if flags_sawf (inner rule) AND SP_RULE_FLAG_MATCH_SCS_SPI \<noteq> 0 then
       (let params' = params\<lparr>spi := spi params AND match_pattern_mask (inner rule)\<rparr> in
        if \<not> (spi params' = match_pattern_value (inner rule)) then (False, params')
        else (True, params'))
     else (True, params))"

text \<open>Lines 1023-1039.\<close>

definition match_sawf_vlan_id ::
    "sp_rule \<Rightarrow> sp_rule_input_params \<Rightarrow> bool \<times> sp_rule_input_params" where
  "match_sawf_vlan_id rule params =
    (if flags_sawf (inner rule) AND SP_RULE_FLAG_MATCH_SAWF_VLAN_ID \<noteq> 0 then
       (if vlan_tci params = SP_RULE_INVALID_VLAN_TCI then (False, params)
        else if \<not> (vlan_tci params AND VLAN_VID_MASK = vlan_id (inner rule))
        then (False, params)
        else match_sawf_spi rule params)
     else match_sawf_spi rule params)"

text \<open>Lines 1004-1021.\<close>

definition match_sawf_vlan_pcp ::
    "sp_rule \<Rightarrow> sp_rule_input_params \<Rightarrow> bool \<times> sp_rule_input_params" where
  "match_sawf_vlan_pcp rule params =
    (if flags_sawf (inner rule) AND SP_RULE_FLAG_MATCH_SAWF_VLAN_PCP \<noteq> 0 then
       (if vlan_tci params = SP_RULE_INVALID_VLAN_TCI then (False, params)
        else
          (let vlan_pcp_in =
                 (ucast (drop_bit VLAN_PRIO_SHIFT (vlan_tci params AND VLAN_PRIO_MASK)) :: u8) in
           if \<not> (vlan_pcp_in = vlan_pcp (inner rule)) then (False, params)
           else match_sawf_vlan_id rule params))
     else match_sawf_vlan_id rule params)"

text \<open>Lines 993-1002.\<close>

definition match_sawf_dscp ::
    "sp_rule \<Rightarrow> sp_rule_input_params \<Rightarrow> bool \<times> sp_rule_input_params" where
  "match_sawf_dscp rule params =
    (if flags_sawf (inner rule) AND SP_RULE_FLAG_MATCH_SAWF_DSCP \<noteq> 0 \<and>
        \<not> (params_dscp params = dscp (inner rule))
     then (False, params)
     else match_sawf_vlan_pcp rule params)"

text \<open>Lines 982-991.\<close>

definition match_sawf_protocol ::
    "sp_rule \<Rightarrow> sp_rule_input_params \<Rightarrow> bool \<times> sp_rule_input_params" where
  "match_sawf_protocol rule params =
    (if flags_sawf (inner rule) AND SP_RULE_FLAG_MATCH_SAWF_PROTOCOL \<noteq> 0 \<and>
        \<not> (params_protocol params = protocol_number (inner rule))
     then (False, params)
     else match_sawf_dscp rule params)"

text \<open>Lines 966-980: with the mask flag the masked address is stored back into the input.\<close>

definition match_sawf_src_ipv4 ::
    "sp_rule \<Rightarrow> sp_rule_input_params \<Rightarrow> bool \<times> sp_rule_input_params" where
  "match_sawf_src_ipv4 rule params =
    (let fl = flags_sawf (inner rule) in
     if fl AND SP_RULE_FLAG_MATCH_SAWF_SRC_IPV4 \<noteq> 0 then
       (let params' =
              (if fl AND SP_RULE_FLAG_MATCH_SAWF_SRC_IPV4_MASK \<noteq> 0
               then params\<lparr>src := (src params)\<lparr>ipv4_addr :=
                      ipv4_addr (src params) AND src_ipv4_addr_mask (inner rule)\<rparr>\<rparr>
               else params) in
        if \<not> (ipv4_addr (src params') = src_ipv4_addr (inner rule)) then (False, params')
        else match_sawf_protocol rule params')
     else match_sawf_protocol rule params)"

text \<open>Lines 952-964.\<close>

definition match_sawf_src_port_range ::
    "sp_rule \<Rightarrow> sp_rule_input_params \<Rightarrow> bool \<times> sp_rule_input_params" where
  "match_sawf_src_port_range rule params =
    (let fl = flags_sawf (inner rule) in
     if fl AND SP_RULE_FLAG_MATCH_SAWF_SRC_PORT_RANGE_START \<noteq> 0 \<and>
        fl AND SP_RULE_FLAG_MATCH_SAWF_SRC_PORT_RANGE_END \<noteq> 0 \<and>
        \<not> (port (src params) \<ge> src_port_range_start (inner rule) \<and>
           port (src params) \<le> src_port_range_end (inner rule))
     then (False, params)
     else match_sawf_src_ipv4 rule params)"

text \<open>Lines 941-950.\<close>

definition match_sawf_src_port ::
    "sp_rule \<Rightarrow> sp_rule_input_params \<Rightarrow> bool \<times> sp_rule_input_params" where
  "match_sawf_src_port rule params =
    (if flags_sawf (inner rule) AND SP_RULE_FLAG_MATCH_SAWF_SRC_PORT \<noteq> 0 \<and>
        \<not> (port (src params) = src_port (inner rule))
     then (False, params)
     else match_sawf_src_port_range rule params)"

text \<open>Lines 922-939: the four words are masked in place, then compared by \<^verbatim>\<open>memcmp\<close>.\<close>

definition match_sawf_dst_ipv6 ::
    "sp_rule \<Rightarrow> sp_rule_input_params \<Rightarrow> bool \<times> sp_rule_input_params" where
  "match_sawf_dst_ipv6 rule params =
    (let fl = flags_sawf (inner rule) in
     if fl AND SP_RULE_FLAG_MATCH_SAWF_DST_IPV6 \<noteq> 0 then
       (let params' =
              (if fl AND SP_RULE_FLAG_MATCH_SAWF_DST_IPV6_MASK \<noteq> 0
               then params\<lparr>dst := (dst params)\<lparr>ipv6_addr :=
                      ipv6_addr (dst params) AND dst_ipv6_addr_mask (inner rule)\<rparr>\<rparr>
               else params) in
        if ipv6_addr (dst params') \<noteq> dst_ipv6_addr (inner rule) then (False, params')
        else match_sawf_src_port rule params')
     else match_sawf_src_port rule params)"

text \<open>Lines 903-920.\<close>

definition match_sawf_src_ipv6 ::
    "sp_rule \<Rightarrow> sp_rule_input_params \<Rightarrow> bool \<times> sp_rule_input_params" where
  "match_sawf_src_ipv6 rule params =
    (let fl = flags_sawf (inner rule) in
     if fl AND SP_RULE_FLAG_MATCH_SAWF_SRC_IPV6 \<noteq> 0 then
       (let params' =
              (if fl AND SP_RULE_FLAG_MATCH_SAWF_SRC_IPV6_MASK \<noteq> 0
               then params\<lparr>src := (src params)\<lparr>ipv6_addr :=
                      ipv6_addr (src params) AND src_ipv6_addr_mask (inner rule)\<rparr>\<rparr>
               else params) in
        if ipv6_addr (src params') \<noteq> src_ipv6_addr (inner rule) then (False, params')
        else match_sawf_dst_ipv6 rule params')
     else match_sawf_dst_ipv6 rule params)"

text \<open>Lines 892-901.\<close>

definition match_sawf_source_mac ::
    "sp_rule \<Rightarrow> sp_rule_input_params \<Rightarrow> bool \<times> sp_rule_input_params" where
  "match_sawf_source_mac rule params =
    (if flags_sawf (inner rule) AND SP_RULE_FLAG_MATCH_SAWF_SOURCE_MAC \<noteq> 0 \<and>
        \<not> ether_addr_equal (mac (src params)) (sa (inner rule))
     then (False, params)
     else match_sawf_src_ipv6 rule params)"

text \<open>Lines 876-890.\<close>

definition match_sawf_dst_ipv4 ::
    "sp_rule \<Rightarrow> sp_rule_input_params \<Rightarrow> bool \<times> sp_rule_input_params" where
  "match_sawf_dst_ipv4 rule params =
    (let fl = flags_sawf (inner rule) in
     if fl AND SP_RULE_FLAG_MATCH_SAWF_DST_IPV4 \<noteq> 0 then
       (let params' =
              (if fl AND SP_RULE_FLAG_MATCH_SAWF_DST_IPV4_MASK \<noteq> 0
               then params\<lparr>dst := (dst params)\<lparr>ipv4_addr :=
                      ipv4_addr (dst params) AND dst_ipv4_addr_mask (inner rule)\<rparr>\<rparr>
               else params) in
        if \<not> (ipv4_addr (dst params') = dst_ipv4_addr (inner rule)) then (False, params')
        else match_sawf_source_mac rule params')
     else match_sawf_source_mac rule params)"

text \<open>Lines 862-874.\<close>

definition match_sawf_dst_port_range ::
    "sp_rule \<Rightarrow> sp_rule_input_params \<Rightarrow> bool \<times> sp_rule_input_params" where
  "match_sawf_dst_port_range rule params =
    (let fl = flags_sawf (inner rule) in
     if fl AND SP_RULE_FLAG_MATCH_SAWF_DST_PORT_RANGE_START \<noteq> 0 \<and>
        fl AND SP_RULE_FLAG_MATCH_SAWF_DST_PORT_RANGE_END \<noteq> 0 \<and>
        \<not> (port (dst params) \<ge> dst_port_range_start (inner rule) \<and>
           port (dst params) \<le> dst_port_range_end (inner rule))
     then (False, params)
     else match_sawf_dst_ipv4 rule params)"

text \<open>Lines 851-860.\<close>

definition match_sawf_dst_port ::
    "sp_rule \<Rightarrow> sp_rule_input_params \<Rightarrow> bool \<times> sp_rule_input_params" where
  "match_sawf_dst_port rule params =
    (if flags_sawf (inner rule) AND SP_RULE_FLAG_MATCH_SAWF_DST_PORT \<noteq> 0 \<and>
        \<not> (port (dst params) = dst_port (inner rule))
     then (False, params)
     else match_sawf_dst_port_range rule params)"

text \<open>
  Lines 826-849: when the destination MAC differs, a SAWF\_SCS rule is tried against the
  device's own address and interface index.
\<close>

definition match_sawf_dst_mac ::
    "sp_rule \<Rightarrow> sp_rule_input_params \<Rightarrow> bool \<times> sp_rule_input_params" where
  "match_sawf_dst_mac rule params =
    (if flags_sawf (inner rule) AND SP_RULE_FLAG_MATCH_SAWF_DST_MAC \<noteq> 0 \<and>
        \<not> ether_addr_equal (mac (dst params)) (da (inner rule))
     then
       (if classifier_type rule = SP_RULE_TYPE_SAWF_SCS then
          (if \<not> (ether_addr_equal (dev_addr params) (da (inner rule)) \<and>
                  params_ifindex params = ifindex (inner rule))
           then (False, params)
           else match_sawf_dst_port rule params)
        else (False, params))
     else match_sawf_dst_port rule params)"

text \<open>Lines 810-824.\<close>

definition sp_mapdb_rule_match_sawf ::
    "sp_rule \<Rightarrow> sp_rule_input_params \<Rightarrow> bool \<times> sp_rule_input_params" where
  "sp_mapdb_rule_match_sawf rule params =
    (if flags_sawf (inner rule) AND SP_RULE_FLAG_MATCH_SAWF_IP_VERSION_TYPE \<noteq> 0 \<and>
        \<not> (params_ip_version_type params = ip_version_type (inner rule))
     then (False, params)
     else match_sawf_dst_mac rule params)"

subsection \<open>MSCS classification: sp\_mapdb\_apply\_mscs\<close>

text \<open>
  \<^verbatim>\<open>(1 << skb->priority) & mscs_tid_bitmap\<close>, on 32-bit integers. \<^verbatim>\<open>skb->priority\<close> is
  an unchecked 32-bit value, and C leaves the shift undefined for a count of 32 or more:
  there the test has no value, and the scan that reaches it ends in \<open>Undefined_shift\<close>.
\<close>

datatype sp_fault = Undefined_shift

definition mscs_tid_bit :: "u32 \<Rightarrow> u8 \<Rightarrow> sp_fault + bool" where
  "mscs_tid_bit priority bitmap =
    (if unat priority < 32
     then Inr (push_bit (unat priority) (1 :: u32) AND ucast bitmap \<noteq> 0)
     else Inl Undefined_shift)"

text \<open>
  The fields \<^verbatim>\<open>priority\<close> and \<^verbatim>\<open>rule_id\<close> that the function writes to
  \<^verbatim>\<open>struct sp_rule_output_params\<close>.
\<close>

record sp_rule_output_params =
  priority :: u8
  rule_id :: u32

text \<open>
  The inner loop over one bucket (lines 1208-1225). The input parameters go from one
  call of the matcher to the next, since the matcher writes to them. After a field
  match, and with a bitmap other than the invalid one, the shift is evaluated: the
  match is accepted with the priority's bit in the bitmap, and the loop goes on
  otherwise.
\<close>

fun apply_mscs_bucket ::
    "sk_buff \<Rightarrow> sp_rule_input_params \<Rightarrow> sp_rule list \<Rightarrow>
     sp_fault + (sp_rule_output_params option \<times> sp_rule_input_params)" where
  "apply_mscs_bucket skb params [] = Inr (None, params)"
| "apply_mscs_bucket skb params (curnode # rest) =
    (if classifier_type curnode = SP_RULE_TYPE_MSCS then
       (case sp_mapdb_rule_match_sawf curnode params of
          (True, params') \<Rightarrow>
            (let bitmap = mscs_tid_bitmap (inner curnode) in
             if bitmap \<noteq> SP_RULE_INVALID_MSCS_TID_BITMAP then
               (case mscs_tid_bit (skb_priority skb) bitmap of
                  Inl fault \<Rightarrow> Inl fault
                | Inr True \<Rightarrow>
                    Inr (Some \<lparr>priority = ucast (skb_priority skb),
                                rule_id = id_rule curnode\<rparr>, params')
                | Inr False \<Rightarrow> apply_mscs_bucket skb params' rest)
             else apply_mscs_bucket skb params' rest)
        | (False, params') \<Rightarrow> apply_mscs_bucket skb params' rest)
     else apply_mscs_bucket skb params rest)"

fun apply_mscs_loop ::
    "sk_buff \<Rightarrow> sp_rule_input_params \<Rightarrow> (nat \<Rightarrow> sp_rule list) \<Rightarrow> nat \<Rightarrow>
     sp_fault + (sp_rule_output_params option \<times> sp_rule_input_params)" where
  "apply_mscs_loop skb params pm 0 = Inr (None, params)"
| "apply_mscs_loop skb params pm (Suc i) =
    (case apply_mscs_bucket skb params (pm i) of
       Inl fault \<Rightarrow> Inl fault
     | Inr (Some out, params') \<Rightarrow> Inr (Some out, params')
     | Inr (None, params') \<Rightarrow> apply_mscs_loop skb params' pm i)"

definition sp_mapdb_apply_mscs ::
    "sp_mapdb_rule_manager \<Rightarrow> sk_buff \<Rightarrow> sp_rule_input_params \<Rightarrow>
     sp_fault + (sp_rule_output_params \<times> sp_rule_input_params)" where
  "sp_mapdb_apply_mscs rule_manager skb params =
    (let invalid = \<lparr>priority = SP_RULE_INVALID_PRIORITY, rule_id = SP_RULE_INVALID_RULE_ID\<rparr> in
     if rule_count rule_manager = 0 then Inr (invalid, params)
     else
       (case apply_mscs_loop skb params (prec_map rule_manager)
               SP_MAPDB_RULE_MAX_PRECEDENCENUM of
          Inl fault \<Rightarrow> Inl fault
        | Inr (Some out, params') \<Rightarrow> Inr (out, params')
        | Inr (None, params') \<Rightarrow> Inr (invalid, params')))"

subsection \<open>The updater\<close>

datatype sp_mapdb_update_result =
    SP_MAPDB_UPDATE_RESULT_SUCCESS_ADD
  | SP_MAPDB_UPDATE_RESULT_SUCCESS_MODIFY
  | SP_MAPDB_UPDATE_RESULT_SUCCESS_DELETE
  | SP_MAPDB_UPDATE_RESULT_ERR_TBLFULL
  | SP_MAPDB_UPDATE_RESULT_ERR_TBLEMPTY
  | SP_MAPDB_UPDATE_RESULT_ERR_RULENOEXIST
  | SP_MAPDB_UPDATE_RESULT_ERR_INVALIDENTRY
  | SP_MAPDB_UPDATE_RESULT_ERR_ALLOCNODE
  | SP_MAPDB_UPDATE_RESULT_ERR_ALLOCHASH
  | SP_MAPDB_UPDATE_RESULT_ERR_UNKNOWNBIT
  | SP_MAPDB_UPDATE_RESULT_ERR_SINGLE_WRITER
  | SP_MAPDB_UPDATE_RESULT_ERR_NEWRULE_NULLPTR

text \<open>\<^verbatim>\<open>sp_mapdb_rules_init\<close>: empty buckets, empty index, count 0, the writer bit clear.\<close>

definition sp_mapdb_rules_init :: sp_mapdb_rule_manager where
  "sp_mapdb_rules_init =
    \<lparr>prec_map = (\<lambda>i. []), rule_id_hashmap = [], rule_count = 0, single_writer = False\<rparr>"

text \<open>
  \<^verbatim>\<open>sp_mapdb_search_hashentry\<close>: the first entry whose node has the id and the type.
  \<^verbatim>\<open>hash_add\<close> puts an entry at the head of its chain, and the entries with one id
  share a chain, so the index is the list of its entries, newest first.
\<close>

definition sp_mapdb_search_hashentry :: "sp_rule list \<Rightarrow> u32 \<Rightarrow> u8 \<Rightarrow> sp_rule option" where
  "sp_mapdb_search_hashentry hashmap ruleid rule_type =
    find (\<lambda>node. id_rule node = ruleid \<and> classifier_type node = rule_type) hashmap"

text \<open>
  Nodes are values here, so the pointer operations name a node by its contents:
  \<^verbatim>\<open>list_del_rcu(node)\<close> is \<open>remove1 node\<close> on the bucket of the node's precedence (a node
  is only ever inserted into that bucket), and \<^verbatim>\<open>list_replace_rcu(old, new)\<close> and the
  assignment \<^verbatim>\<open>cur_hashentry->rule_node = new_rule_node\<close> put \<open>new\<close> where \<open>old\<close>
  stands first. The table never holds two nodes with one id and type (shown below),
  so the first occurrence is the node meant.
\<close>

fun list_replace :: "'a \<Rightarrow> 'a \<Rightarrow> 'a list \<Rightarrow> 'a list" where
  "list_replace old new [] = []"
| "list_replace old new (x # xs) =
    (if x = old then new # xs else x # list_replace old new xs)"

text \<open>
  Lines 156-168 of \<^verbatim>\<open>sp_mapdb_rule_add\<close>: the new node is a copy of the request with
  the type set, and with precedence 0 when the request has the sentinel
  \<^verbatim>\<open>SP_MAPDB_RULE_MAX_PRECEDENCENUM\<close>.
\<close>

definition new_rule_node :: "sp_rule \<Rightarrow> u8 \<Rightarrow> sp_rule" where
  "new_rule_node newrule rule_type =
    (if unat (rule_precedence newrule) = SP_MAPDB_RULE_MAX_PRECEDENCENUM
     then newrule\<lparr>classifier_type := rule_type, rule_precedence := 0\<rparr>
     else newrule\<lparr>classifier_type := rule_type\<rparr>)"

text \<open>
  \<^verbatim>\<open>sp_mapdb_rule_add\<close>. The two booleans say whether the two \<^verbatim>\<open>kzalloc\<close> calls
  succeed. The result is the return value and the table afterwards.
\<close>

definition sp_mapdb_rule_add ::
    "bool \<Rightarrow> bool \<Rightarrow> sp_mapdb_rule_manager \<Rightarrow> sp_rule \<Rightarrow> u8 \<Rightarrow>
     sp_mapdb_update_result \<times> sp_mapdb_rule_manager" where
  "sp_mapdb_rule_add alloc_node alloc_hashentry rule_manager newrule rule_type =
    (if rule_count rule_manager = SP_MAPDB_RULE_MAX
     then (SP_MAPDB_UPDATE_RESULT_ERR_TBLFULL, rule_manager)
     else if rule_output (inner newrule) \<ge> SP_MAPDB_NO_MATCH
     then (SP_MAPDB_UPDATE_RESULT_ERR_INVALIDENTRY, rule_manager)
     else if \<not> alloc_node
     then (SP_MAPDB_UPDATE_RESULT_ERR_ALLOCNODE, rule_manager)
     else
       (let node = new_rule_node newrule rule_type;
            newrule_precedence = unat (rule_precedence node);
            pm = prec_map rule_manager
        in
        case sp_mapdb_search_hashentry (rule_id_hashmap rule_manager)
               (id_rule newrule) rule_type of
          None \<Rightarrow>
            (if \<not> alloc_hashentry
             then (SP_MAPDB_UPDATE_RESULT_ERR_ALLOCHASH, rule_manager)
             else
               (SP_MAPDB_UPDATE_RESULT_SUCCESS_ADD,
                rule_manager
                  \<lparr>prec_map := pm(newrule_precedence := node # pm newrule_precedence),
                   rule_id_hashmap := node # rule_id_hashmap rule_manager,
                   rule_count := rule_count rule_manager + 1\<rparr>))
        | Some cur_rule_node \<Rightarrow>
            (if unat (rule_precedence cur_rule_node) = newrule_precedence then
               (SP_MAPDB_UPDATE_RESULT_SUCCESS_MODIFY,
                rule_manager
                  \<lparr>prec_map := pm(newrule_precedence :=
                                list_replace cur_rule_node node (pm newrule_precedence)),
                   rule_id_hashmap :=
                     list_replace cur_rule_node node (rule_id_hashmap rule_manager)\<rparr>)
             else
               (let old_prec = unat (rule_precedence cur_rule_node);
                    pm' = pm(old_prec := remove1 cur_rule_node (pm old_prec))
                in
                (SP_MAPDB_UPDATE_RESULT_SUCCESS_MODIFY,
                 rule_manager
                   \<lparr>prec_map := pm'(newrule_precedence := node # pm' newrule_precedence),
                    rule_id_hashmap :=
                      list_replace cur_rule_node node (rule_id_hashmap rule_manager)\<rparr>)))))"

text \<open>\<^verbatim>\<open>sp_mapdb_rule_delete\<close>.\<close>

definition sp_mapdb_rule_delete ::
    "sp_mapdb_rule_manager \<Rightarrow> u32 \<Rightarrow> u8 \<Rightarrow>
     sp_mapdb_update_result \<times> sp_mapdb_rule_manager" where
  "sp_mapdb_rule_delete rule_manager ruleid rule_type =
    (if rule_count rule_manager = 0
     then (SP_MAPDB_UPDATE_RESULT_ERR_TBLEMPTY, rule_manager)
     else
       (case sp_mapdb_search_hashentry (rule_id_hashmap rule_manager) ruleid rule_type of
          None \<Rightarrow> (SP_MAPDB_UPDATE_RESULT_ERR_RULENOEXIST, rule_manager)
        | Some tobedeleted \<Rightarrow>
            (let pm = prec_map rule_manager;
                 prec = unat (rule_precedence tobedeleted)
             in
             (SP_MAPDB_UPDATE_RESULT_SUCCESS_DELETE,
              rule_manager
                \<lparr>prec_map := pm(prec := remove1 tobedeleted (pm prec)),
                 rule_id_hashmap := remove1 tobedeleted (rule_id_hashmap rule_manager),
                 rule_count := rule_count rule_manager - 1\<rparr>))))"

text \<open>
  \<^verbatim>\<open>sp_mapdb_ruletable_flush\<close>: nothing to do on an empty table; else every bucket
  below \<^verbatim>\<open>SP_MAPDB_RULE_MAX_PRECEDENCENUM\<close> and the index are emptied.
\<close>

definition sp_mapdb_ruletable_flush :: "sp_mapdb_rule_manager \<Rightarrow> sp_mapdb_rule_manager" where
  "sp_mapdb_ruletable_flush rule_manager =
    (if rule_count rule_manager = 0 then rule_manager
     else rule_manager
       \<lparr>prec_map := fold (\<lambda>i pm. pm(i := [])) [0..<SP_MAPDB_RULE_MAX_PRECEDENCENUM]
                      (prec_map rule_manager),
        rule_id_hashmap := [],
        rule_count := 0\<rparr>)"

text \<open>
  \<^verbatim>\<open>sp_mapdb_rule_update\<close>: a null request and a busy writer bit are refused; the bit
  is set for the time of the command and cleared after it.
\<close>

definition sp_mapdb_rule_update ::
    "bool \<Rightarrow> bool \<Rightarrow> sp_mapdb_rule_manager \<Rightarrow> sp_rule option \<Rightarrow>
     sp_mapdb_update_result \<times> sp_mapdb_rule_manager" where
  "sp_mapdb_rule_update alloc_node alloc_hashentry rule_manager newrule_ptr =
    (case newrule_ptr of
       None \<Rightarrow> (SP_MAPDB_UPDATE_RESULT_ERR_NEWRULE_NULLPTR, rule_manager)
     | Some newrule \<Rightarrow>
         (if single_writer rule_manager
          then (SP_MAPDB_UPDATE_RESULT_ERR_SINGLE_WRITER, rule_manager)
          else
            (let locked = rule_manager\<lparr>single_writer := True\<rparr>;
                 (error_code, rm') =
                   (if cmd newrule = SP_MAPDB_ADD_REMOVE_FILTER_DELETE
                    then sp_mapdb_rule_delete locked (id_rule newrule)
                           (classifier_type newrule)
                    else if cmd newrule = SP_MAPDB_ADD_REMOVE_FILTER_ADD
                    then sp_mapdb_rule_add alloc_node alloc_hashentry locked newrule
                           (classifier_type newrule)
                    else (SP_MAPDB_UPDATE_RESULT_ERR_UNKNOWNBIT, locked))
             in (error_code, rm'\<lparr>single_writer := False\<rparr>))))"

subsection \<open>Sequences of operations\<close>

text \<open>
  An operation on the table is an update request (with the outcome of its two
  allocations) or a flush. A run applies a sequence of them to the initial table.
\<close>

datatype sp_operation =
    Update "sp_rule option" bool bool
  | Flush

fun sp_apply_operation :: "sp_mapdb_rule_manager \<Rightarrow> sp_operation \<Rightarrow> sp_mapdb_rule_manager" where
  "sp_apply_operation rule_manager (Update newrule_ptr alloc_node alloc_hashentry) =
    snd (sp_mapdb_rule_update alloc_node alloc_hashentry rule_manager newrule_ptr)"
| "sp_apply_operation rule_manager Flush = sp_mapdb_ruletable_flush rule_manager"

definition sp_run :: "sp_operation list \<Rightarrow> sp_mapdb_rule_manager" where
  "sp_run ops = foldl sp_apply_operation sp_mapdb_rules_init ops"

text \<open>
  The rules that are live in the table: the nodes of all buckets. The key of a rule is
  its id and type.
\<close>

definition live_rules :: "sp_mapdb_rule_manager \<Rightarrow> sp_rule list" where
  "live_rules rule_manager =
    concat (map (prec_map rule_manager) [0..<SP_MAPDB_RULE_MAX_PRECEDENCENUM])"

definition rule_key :: "sp_rule \<Rightarrow> u32 \<times> u8" where
  "rule_key rule = (id_rule rule, classifier_type rule)"

text \<open>
  The invariant of the table between two operations: the index holds exactly the nodes
  of the buckets, no two of them with one key; the counter is their number and stays
  within \<^verbatim>\<open>SP_MAPDB_RULE_MAX\<close>; a node lies in the bucket of its precedence.
\<close>

definition sp_mapdb_inv :: "sp_mapdb_rule_manager \<Rightarrow> bool" where
  "sp_mapdb_inv rule_manager =
    (mset (live_rules rule_manager) = mset (rule_id_hashmap rule_manager) \<and>
     distinct (map rule_key (rule_id_hashmap rule_manager)) \<and>
     rule_count rule_manager = length (rule_id_hashmap rule_manager) \<and>
     rule_count rule_manager \<le> SP_MAPDB_RULE_MAX \<and>
     (\<forall>i < SP_MAPDB_RULE_MAX_PRECEDENCENUM.
        \<forall>rule \<in> set (prec_map rule_manager i). unat (rule_precedence rule) = i))"

subsection \<open>Statements about the scans\<close>

text \<open>
  The rules of the table in the order of the scans: bucket
  \<^verbatim>\<open>SP_MAPDB_RULE_MAX_PRECEDENCENUM - 1\<close> first, bucket 0 last, each from its head.
\<close>

definition descending_rules :: "sp_mapdb_rule_manager \<Rightarrow> sp_rule list" where
  "descending_rules rule_manager =
    concat (map (prec_map rule_manager) (rev [0..<SP_MAPDB_RULE_MAX_PRECEDENCENUM]))"

text \<open>
  The spec's reading of a sensed field check: an active field is satisfied when
  \<open>compare_result XOR sense\<close> is true; a field that is not active asks for nothing.
\<close>

definition sense_check :: "u32 \<Rightarrow> u32 \<Rightarrow> u32 \<Rightarrow> bool \<Rightarrow> bool" where
  "sense_check fl match_flag sense_flag compare_result =
    (fl AND match_flag \<noteq> 0 \<longrightarrow> (compare_result \<noteq> (fl AND sense_flag \<noteq> 0)))"

text \<open>The ports that the port checks see (lines 446-466): those of TCP or UDP, else 0.\<close>

definition l4_src_port :: "sk_buff \<Rightarrow> u16" where
  "l4_src_port skb =
    (if iph_protocol skb = IPPROTO_TCP then tcph_source skb
     else if iph_protocol skb = IPPROTO_UDP then udph_source skb else 0)"

definition l4_dst_port :: "sk_buff \<Rightarrow> u16" where
  "l4_dst_port skb =
    (if iph_protocol skb = IPPROTO_TCP then tcph_dest skb
     else if iph_protocol skb = IPPROTO_UDP then udph_dest skb else 0)"

definition ipv4_group_flags :: u32 where
  "ipv4_group_flags =
    SP_RULE_FLAG_MATCH_SRC_IPV4 OR SP_RULE_FLAG_MATCH_DST_IPV4 OR
    SP_RULE_FLAG_MATCH_SRC_PORT OR SP_RULE_FLAG_MATCH_DST_PORT OR
    SP_RULE_FLAG_MATCH_DSCP OR SP_RULE_FLAG_MATCH_PROTOCOL"

text \<open>
  The spec's reading of the generic matcher without the always-true flag: every active
  field passes its sensed check; the VLAN check needs an 802.1Q tag; with a flag of the
  IPv4 group the frame is IPv4 with its IP header, and TCP or UDP come with their header.
\<close>

definition mesh_fields_satisfied ::
    "sk_buff \<Rightarrow> sp_rule \<Rightarrow> mac_addr \<Rightarrow> mac_addr \<Rightarrow> bool" where
  "mesh_fields_satisfied skb rule smac dmac =
    (let fl = flags (inner rule) in
     sense_check fl SP_RULE_FLAG_MATCH_UP SP_RULE_FLAG_MATCH_UP_SENSE
       (skb_priority skb = ucast (user_priority (inner rule))) \<and>
     sense_check fl SP_RULE_FLAG_MATCH_SOURCE_MAC SP_RULE_FLAG_MATCH_SOURCE_MAC_SENSE
       (smac = sa (inner rule)) \<and>
     sense_check fl SP_RULE_FLAG_MATCH_DST_MAC SP_RULE_FLAG_MATCH_DST_MAC_SENSE
       (dmac = da (inner rule)) \<and>
     (fl AND SP_RULE_FLAG_MATCH_VLAN_ID \<noteq> 0 \<longrightarrow>
        uint (ntohs (eth_h_proto skb)) = ETH_P_8021Q) \<and>
     sense_check fl SP_RULE_FLAG_MATCH_VLAN_ID SP_RULE_FLAG_MATCH_VLAN_ID_SENSE
       (sint (ntohs (vlan_h_TCI skb)) = uint (vlan_id (inner rule))) \<and>
     (fl AND ipv4_group_flags \<noteq> 0 \<longrightarrow>
        skb_protocol skb = ntohs (word_of_int ETH_P_IP) \<and>
        pskb_may_pull skb sizeof_iphdr \<and>
        sense_check fl SP_RULE_FLAG_MATCH_DSCP SP_RULE_FLAG_MATCH_DSCP_SENSE
          ((ucast (drop_bit 2 (iph_tos skb)) :: u16) = ucast (dscp (inner rule))) \<and>
        sense_check fl SP_RULE_FLAG_MATCH_SRC_IPV4 SP_RULE_FLAG_MATCH_SRC_IPV4_SENSE
          (iph_saddr skb = src_ipv4_addr (inner rule)) \<and>
        sense_check fl SP_RULE_FLAG_MATCH_DST_IPV4 SP_RULE_FLAG_MATCH_DST_IPV4_SENSE
          (iph_daddr skb = dst_ipv4_addr (inner rule)) \<and>
        sense_check fl SP_RULE_FLAG_MATCH_PROTOCOL SP_RULE_FLAG_MATCH_PROTOCOL_SENSE
          (iph_protocol skb = protocol_number (inner rule)) \<and>
        (iph_protocol skb = IPPROTO_TCP \<longrightarrow> pskb_may_pull skb sizeof_tcphdr) \<and>
        (iph_protocol skb = IPPROTO_UDP \<longrightarrow> pskb_may_pull skb sizeof_udphdr) \<and>
        sense_check fl SP_RULE_FLAG_MATCH_SRC_PORT SP_RULE_FLAG_MATCH_SRC_PORT_SENSE
          (ntohs (l4_src_port skb) = src_port (inner rule)) \<and>
        sense_check fl SP_RULE_FLAG_MATCH_DST_PORT SP_RULE_FLAG_MATCH_DST_PORT_SENSE
          (ntohs (l4_dst_port skb) = dst_port (inner rule))))"


subsection \<open>Example rules, packets and tables\<close>

text \<open>The all-zero rule, as \<^verbatim>\<open>struct sp_rule to_sawf_sp = {0}\<close> in the netlink handler.\<close>

definition blank_rule :: sp_rule where
  "blank_rule = \<lparr>id_rule = 0, classifier_type = 0, rule_precedence = 0, cmd = 0,
     inner = \<lparr>flags = 0, flags_sawf = 0, user_priority = 0, sa = 0, da = 0,
       vlan_id = 0, vlan_pcp = 0, dscp = 0, protocol_number = 0, ip_version_type = 0,
       ifindex = 0, src_port = 0, dst_port = 0, src_port_range_start = 0,
       src_port_range_end = 0, dst_port_range_start = 0, dst_port_range_end = 0,
       src_ipv4_addr = 0, src_ipv4_addr_mask = 0, dst_ipv4_addr = 0, dst_ipv4_addr_mask = 0,
       src_ipv6_addr = 0, src_ipv6_addr_mask = 0, dst_ipv6_addr = 0, dst_ipv6_addr_mask = 0,
       match_pattern_value = 0, match_pattern_mask = 0, rule_output = 0, dscp_remark = 0,
       vlan_pcp_remark = 0, service_class_id = 0, mscs_tid_bitmap = 0, priority_limit = 0,
       service_interval_dl = 0, burst_size_dl = 0, service_interval_ul = 0, burst_size_ul = 0\<rparr>\<rparr>"

text \<open>Rule A: MESH, id 5, precedence 10, always true, output 5.\<close>

definition rule_A :: sp_rule where
  "rule_A = blank_rule\<lparr>id_rule := 5, classifier_type := SP_RULE_TYPE_MESH,
      rule_precedence := 10, cmd := SP_MAPDB_ADD_REMOVE_FILTER_ADD,
      inner := (inner blank_rule)\<lparr>flags := SP_RULE_FLAG_MATCH_ALWAYS_TRUE, rule_output := 5\<rparr>\<rparr>"

text \<open>Rule B: MESH, id 6, precedence 3, always true, output 2.\<close>

definition rule_B :: sp_rule where
  "rule_B = blank_rule\<lparr>id_rule := 6, classifier_type := SP_RULE_TYPE_MESH,
      rule_precedence := 3, cmd := SP_MAPDB_ADD_REMOVE_FILTER_ADD,
      inner := (inner blank_rule)\<lparr>flags := SP_RULE_FLAG_MATCH_ALWAYS_TRUE, rule_output := 2\<rparr>\<rparr>"

text \<open>A request with the sentinel precedence.\<close>

definition sentinel_request :: sp_rule where
  "sentinel_request = blank_rule\<lparr>id_rule := 9, classifier_type := SP_RULE_TYPE_MESH,
      rule_precedence := 0xFF, cmd := SP_MAPDB_ADD_REMOVE_FILTER_ADD,
      inner := (inner blank_rule)\<lparr>flags := SP_RULE_FLAG_MATCH_ALWAYS_TRUE, rule_output := 5\<rparr>\<rparr>"

text \<open>
  A full table: \<^verbatim>\<open>SP_MAPDB_RULE_MAX\<close> MESH rules with the ids 0, 1, 2, ... in bucket 0;
  and a request that would modify the live rule 3 of it.
\<close>

definition full_rules :: "sp_rule list" where
  "full_rules =
    map (\<lambda>n. blank_rule\<lparr>id_rule := of_nat n, classifier_type := SP_RULE_TYPE_MESH\<rparr>)
      [0..<SP_MAPDB_RULE_MAX]"

definition full_table :: sp_mapdb_rule_manager where
  "full_table = \<lparr>prec_map = (\<lambda>i. if i = 0 then full_rules else []),
      rule_id_hashmap = full_rules, rule_count = SP_MAPDB_RULE_MAX, single_writer = False\<rparr>"

definition modify_request :: sp_rule where
  "modify_request = blank_rule\<lparr>id_rule := 3, classifier_type := SP_RULE_TYPE_MESH,
      cmd := SP_MAPDB_ADD_REMOVE_FILTER_ADD,
      inner := (inner blank_rule)\<lparr>rule_output := 5\<rparr>\<rparr>"

text \<open>
  An IPv4 packet with DS field 128 (DSCP 32), not TCP or UDP (IP protocol 1, ICMP).
  \<^verbatim>\<open>skb->protocol\<close> holds \<^verbatim>\<open>htons(ETH_P_IP)\<close>.
\<close>

definition ipv4_packet :: sk_buff where
  "ipv4_packet = \<lparr>skb_priority = 0, skb_protocol = 0x0008, eth_h_proto = 0x0008,
      vlan_h_TCI = 0, skb_pull_len = 84, iph_tos = 128, iph_saddr = 0x0100000A,
      iph_daddr = 0x0200000A, iph_protocol = 1, ipv6h_dsfield = 0,
      tcph_source = 0, tcph_dest = 0, udph_source = 0, udph_dest = 0\<rparr>"

text \<open>
  Rule S: a SAWF rule, id 11, precedence 20, always true, output 7. Rule M: a MESH rule,
  id 12, precedence 15, "source MAC is not 00:11:22:33:44:55", output 6.
\<close>

definition rule_S :: sp_rule where
  "rule_S = blank_rule\<lparr>id_rule := 11, classifier_type := SP_RULE_TYPE_SAWF,
      rule_precedence := 20, cmd := SP_MAPDB_ADD_REMOVE_FILTER_ADD,
      inner := (inner blank_rule)\<lparr>flags := SP_RULE_FLAG_MATCH_ALWAYS_TRUE, rule_output := 7\<rparr>\<rparr>"

definition rule_M :: sp_rule where
  "rule_M = blank_rule\<lparr>id_rule := 12, classifier_type := SP_RULE_TYPE_MESH,
      rule_precedence := 15, cmd := SP_MAPDB_ADD_REMOVE_FILTER_ADD,
      inner := (inner blank_rule)\<lparr>flags := SP_RULE_FLAG_MATCH_SOURCE_MAC OR
          SP_RULE_FLAG_MATCH_SOURCE_MAC_SENSE, sa := 0x001122334455, rule_output := 6\<rparr>\<rparr>"

text \<open>The table after adding the rules B, A, S and M, and the same without B.\<close>

definition table_SMAB :: sp_mapdb_rule_manager where
  "table_SMAB =
     sp_run [Update (Some rule_B) True True, Update (Some rule_A) True True,
             Update (Some rule_S) True True, Update (Some rule_M) True True]"

definition table_SMA :: sp_mapdb_rule_manager where
  "table_SMA =
     sp_run [Update (Some rule_A) True True, Update (Some rule_S) True True,
             Update (Some rule_M) True True]"

text \<open>
  "Source MAC is not 00:11:22:33:44:55" and "source port is not 80": MESH rules with a
  match flag and its sense flag; and a frame that is not IP (ARP).
\<close>

definition not_from_mac_rule :: sp_rule where
  "not_from_mac_rule = blank_rule\<lparr>id_rule := 7, classifier_type := SP_RULE_TYPE_MESH,
      rule_precedence := 4, cmd := SP_MAPDB_ADD_REMOVE_FILTER_ADD,
      inner := (inner blank_rule)\<lparr>flags := SP_RULE_FLAG_MATCH_SOURCE_MAC OR
          SP_RULE_FLAG_MATCH_SOURCE_MAC_SENSE, sa := 0x001122334455, rule_output := 6\<rparr>\<rparr>"

definition not_port80_rule :: sp_rule where
  "not_port80_rule = blank_rule\<lparr>id_rule := 8, classifier_type := SP_RULE_TYPE_MESH,
      rule_precedence := 4, cmd := SP_MAPDB_ADD_REMOVE_FILTER_ADD,
      inner := (inner blank_rule)\<lparr>flags := SP_RULE_FLAG_MATCH_SRC_PORT OR
          SP_RULE_FLAG_MATCH_SRC_PORT_SENSE, src_port := 80, rule_output := 3\<rparr>\<rparr>"

definition arp_frame :: sk_buff where
  "arp_frame = ipv4_packet\<lparr>skb_protocol := 0x0608, eth_h_proto := 0x0608\<rparr>"

text \<open>
  Input parameters of the SAWF-family matcher: all zero and without VLAN tag, and the
  same with the destination IPv4 address \<^verbatim>\<open>0xC0A80105\<close>.
\<close>

definition blank_params :: sp_rule_input_params where
  "blank_params = \<lparr>src = \<lparr>ipv4_addr = 0, ipv6_addr = 0, mac = 0, port = 0\<rparr>,
      dst = \<lparr>ipv4_addr = 0, ipv6_addr = 0, mac = 0, port = 0\<rparr>,
      params_ip_version_type = 0, dev_addr = 0, params_ifindex = 0, params_protocol = 0,
      params_dscp = 0, vlan_tci = 0xFFFF, spi = 0\<rparr>"

definition sawf_params :: sp_rule_input_params where
  "sawf_params = blank_params\<lparr>dst := (dst blank_params)\<lparr>ipv4_addr := 0xC0A80105\<rparr>\<rparr>"

text \<open>
  Two MSCS rules on the destination IPv4 address, both with all priorities in their
  bitmap: the subnet \<^verbatim>\<open>0x0A000000\<close> under the mask \<^verbatim>\<open>0xFFFFFF00\<close> at precedence 10,
  and the host \<^verbatim>\<open>0xC0A80105\<close> without mask at precedence 5.
\<close>

definition subnet_rule :: sp_rule where
  "subnet_rule = blank_rule\<lparr>id_rule := 20, classifier_type := SP_RULE_TYPE_MSCS,
      rule_precedence := 10, cmd := SP_MAPDB_ADD_REMOVE_FILTER_ADD,
      inner := (inner blank_rule)\<lparr>flags_sawf := SP_RULE_FLAG_MATCH_SAWF_DST_IPV4 OR
          SP_RULE_FLAG_MATCH_SAWF_DST_IPV4_MASK, dst_ipv4_addr := 0x0A000000,
          dst_ipv4_addr_mask := 0xFFFFFF00, mscs_tid_bitmap := 0xFF\<rparr>\<rparr>"

definition host_rule :: sp_rule where
  "host_rule = blank_rule\<lparr>id_rule := 21, classifier_type := SP_RULE_TYPE_MSCS,
      rule_precedence := 5, cmd := SP_MAPDB_ADD_REMOVE_FILTER_ADD,
      inner := (inner blank_rule)\<lparr>flags_sawf := SP_RULE_FLAG_MATCH_SAWF_DST_IPV4,
          dst_ipv4_addr := 0xC0A80105, mscs_tid_bitmap := 0xFF\<rparr>\<rparr>"



definition prio2_packet :: sk_buff where
  "prio2_packet = ipv4_packet\<lparr>skb_priority := 2\<rparr>"



definition host_table :: sp_mapdb_rule_manager where
  "host_table = sp_run [Update (Some host_rule) True True]"

definition subnet_host_table :: sp_mapdb_rule_manager where
  "subnet_host_table =
     sp_run [Update (Some host_rule) True True, Update (Some subnet_rule) True True]"

section \<open>Properties\<close>

lemmas mesh_flag_defs =
  SP_RULE_FLAG_MATCH_ALWAYS_TRUE_def SP_RULE_FLAG_MATCH_UP_def
  SP_RULE_FLAG_MATCH_UP_SENSE_def SP_RULE_FLAG_MATCH_SOURCE_MAC_def
  SP_RULE_FLAG_MATCH_SOURCE_MAC_SENSE_def SP_RULE_FLAG_MATCH_DST_MAC_def
  SP_RULE_FLAG_MATCH_DST_MAC_SENSE_def SP_RULE_FLAG_MATCH_SRC_IPV4_def
  SP_RULE_FLAG_MATCH_SRC_IPV4_SENSE_def SP_RULE_FLAG_MATCH_DST_IPV4_def
  SP_RULE_FLAG_MATCH_DST_IPV4_SENSE_def SP_RULE_FLAG_MATCH_SRC_PORT_def
  SP_RULE_FLAG_MATCH_SRC_PORT_SENSE_def SP_RULE_FLAG_MATCH_DST_PORT_def
  SP_RULE_FLAG_MATCH_DST_PORT_SENSE_def SP_RULE_FLAG_MATCH_PROTOCOL_def
  SP_RULE_FLAG_MATCH_PROTOCOL_SENSE_def SP_RULE_FLAG_MATCH_VLAN_ID_def
  SP_RULE_FLAG_MATCH_VLAN_ID_SENSE_def SP_RULE_FLAG_MATCH_DSCP_def
  SP_RULE_FLAG_MATCH_DSCP_SENSE_def

lemmas sawf_flag_defs =
  SP_RULE_FLAG_MATCH_SAWF_IP_VERSION_TYPE_def SP_RULE_FLAG_MATCH_SAWF_DST_MAC_def
  SP_RULE_FLAG_MATCH_SAWF_DST_PORT_def SP_RULE_FLAG_MATCH_SAWF_DST_PORT_RANGE_START_def
  SP_RULE_FLAG_MATCH_SAWF_DST_PORT_RANGE_END_def SP_RULE_FLAG_MATCH_SAWF_DST_IPV4_def
  SP_RULE_FLAG_MATCH_SAWF_DST_IPV4_MASK_def SP_RULE_FLAG_MATCH_SAWF_SOURCE_MAC_def
  SP_RULE_FLAG_MATCH_SAWF_SRC_IPV6_def SP_RULE_FLAG_MATCH_SAWF_SRC_IPV6_MASK_def
  SP_RULE_FLAG_MATCH_SAWF_DST_IPV6_def SP_RULE_FLAG_MATCH_SAWF_DST_IPV6_MASK_def
  SP_RULE_FLAG_MATCH_SAWF_SRC_PORT_def SP_RULE_FLAG_MATCH_SAWF_SRC_PORT_RANGE_START_def
  SP_RULE_FLAG_MATCH_SAWF_SRC_PORT_RANGE_END_def SP_RULE_FLAG_MATCH_SAWF_SRC_IPV4_def
  SP_RULE_FLAG_MATCH_SAWF_SRC_IPV4_MASK_def SP_RULE_FLAG_MATCH_SAWF_PROTOCOL_def
  SP_RULE_FLAG_MATCH_SAWF_DSCP_def SP_RULE_FLAG_MATCH_SAWF_VLAN_PCP_def
  SP_RULE_FLAG_MATCH_SAWF_VLAN_ID_def SP_RULE_FLAG_MATCH_SCS_SPI_def

subsection \<open>Helper lemmas: lists, multisets and the buckets\<close>

lemma mset_list_replace:
  "mset (list_replace old new xs) =
     (if old \<in> set xs then add_mset new (mset xs - {#old#}) else mset xs)"
  by (induction xs) auto

lemma map_key_list_replace:
  "f new = f old \<Longrightarrow> map f (list_replace old new xs) = map f xs"
  by (induction xs) auto

lemma length_list_replace: "length (list_replace old new xs) = length xs"
  by (induction xs) auto

lemma set_list_replace:
  "old \<in> set xs \<Longrightarrow> new \<in> set (list_replace old new xs)"
  by (induction xs) auto

lemma mset_concat_upd:
  "p < n \<Longrightarrow> mset (concat (map (f(p := xs)) [0..<n])) + mset (f p) =
     mset (concat (map f [0..<n])) + mset xs"
proof (induction n)
  case 0
  then show ?case by simp
next
  case (Suc n)
  show ?case
  proof (cases "p = n")
    case True
    have "map (f(n := xs)) [0..<n] = map f [0..<n]" by (intro map_cong) auto
    then show ?thesis unfolding True by (simp del: fun_upd_apply add: fun_upd_same)
  next
    case False
    with Suc.prems have "p < n" by simp
    from Suc.IH[OF this] False show ?thesis by simp
  qed
qed

lemma fold_clear:
  "(fold (\<lambda>i pm. pm(i := [])) [0..<n] pm) i = (if i < n then [] else pm i)"
  by (induction n arbitrary: pm) auto

lemma concat_empty: "(\<And>i. i < n \<Longrightarrow> f i = []) \<Longrightarrow> concat (map f [0..<n]) = []"
  by (induction n) auto

lemma in_live_rules:
  "r \<in> set (live_rules rm) \<longleftrightarrow>
     (\<exists>i < SP_MAPDB_RULE_MAX_PRECEDENCENUM. r \<in> set (prec_map rm i))"
  by (auto simp: live_rules_def)

lemma search_None:
  "sp_mapdb_search_hashentry hm rid ty = None \<longleftrightarrow> (rid, ty) \<notin> rule_key ` set hm"
  by (auto simp: sp_mapdb_search_hashentry_def find_None_iff rule_key_def)

lemma search_Some:
  "sp_mapdb_search_hashentry hm rid ty = Some r \<Longrightarrow> r \<in> set hm \<and> rule_key r = (rid, ty)"
  by (auto simp: sp_mapdb_search_hashentry_def find_Some_iff rule_key_def in_set_conv_nth)

lemma prec_in_range:
  "unat (if unat (p :: u8) = SP_MAPDB_RULE_MAX_PRECEDENCENUM then 0 else p)
     < SP_MAPDB_RULE_MAX_PRECEDENCENUM"
proof -
  have "unat p < 256" using unsigned_less[of p, where ?'a = nat] by simp
  then show ?thesis by (auto simp: SP_MAPDB_RULE_MAX_PRECEDENCENUM_def)
qed


lemma inv_init: "sp_mapdb_inv sp_mapdb_rules_init"
  by (simp add: sp_mapdb_inv_def sp_mapdb_rules_init_def live_rules_def concat_empty)

lemma inv_single_writer [simp]:
  "sp_mapdb_inv (rm\<lparr>single_writer := b\<rparr>) = sp_mapdb_inv rm"
  by (simp add: sp_mapdb_inv_def live_rules_def)

lemma inv_flush: "sp_mapdb_inv rm \<Longrightarrow> sp_mapdb_inv (sp_mapdb_ruletable_flush rm)"
  by (simp add: sp_mapdb_inv_def sp_mapdb_ruletable_flush_def live_rules_def fold_clear concat_empty)

lemma inv_in_bucket:
  assumes "sp_mapdb_inv rm" "r \<in> set (rule_id_hashmap rm)"
  shows "r \<in> set (prec_map rm (unat (rule_precedence r))) \<and>
         unat (rule_precedence r) < SP_MAPDB_RULE_MAX_PRECEDENCENUM"
proof -
  from assms have "r \<in># mset (live_rules rm)" by (simp add: sp_mapdb_inv_def)
  then have "r \<in> set (live_rules rm)" by simp
  then obtain i where "i < SP_MAPDB_RULE_MAX_PRECEDENCENUM" "r \<in> set (prec_map rm i)"
    by (auto simp: in_live_rules)
  moreover from this assms(1) have "unat (rule_precedence r) = i"
    by (simp add: sp_mapdb_inv_def)
  ultimately show ?thesis by simp
qed


lemma mset_swap_remove:
  assumes "r \<in># B" "r \<in># A"
  shows "A + (B - {#r#}) = (A - {#r#}) + B"
proof -
  from assms have "0 < count B r" "0 < count A r" by simp_all
  then show ?thesis by (auto simp: multiset_eq_iff)
qed

lemma mset_concat_cons:
  assumes "p < n"
  shows "mset (concat (map (f(p := x # f p)) [0..<n])) = add_mset x (mset (concat (map f [0..<n])))"
proof -
  from mset_concat_upd[OF assms, of f "x # f p"]
  have "mset (concat (map (f(p := x # f p)) [0..<n])) + mset (f p) =
        add_mset x (mset (concat (map f [0..<n]))) + mset (f p)"
    by (simp add: ac_simps)
  then show ?thesis by (simp only: add_right_cancel)
qed

lemma mset_concat_remove1:
  assumes "p < n" "r \<in> set (f p)"
  shows "mset (concat (map (f(p := remove1 r (f p))) [0..<n])) =
         mset (concat (map f [0..<n])) - {#r#}"
proof -
  have mem: "r \<in># mset (concat (map f [0..<n]))"
    using assms by auto
  from mset_concat_upd[OF assms(1), of f "remove1 r (f p)"]
  have "mset (concat (map (f(p := remove1 r (f p))) [0..<n])) + mset (f p) =
        mset (concat (map f [0..<n])) + (mset (f p) - {#r#})"
    by simp
  also have "\<dots> = (mset (concat (map f [0..<n])) - {#r#}) + mset (f p)"
    by (rule mset_swap_remove) (use assms(2) mem in simp_all)
  finally show ?thesis by (simp only: add_right_cancel)
qed

lemma mset_concat_replace:
  assumes "p < n" "old \<in> set (f p)"
  shows "mset (concat (map (f(p := list_replace old new (f p))) [0..<n])) =
         add_mset new (mset (concat (map f [0..<n])) - {#old#})"
proof -
  have mem: "old \<in># mset (concat (map f [0..<n]))"
    using assms by auto
  from mset_concat_upd[OF assms(1), of f "list_replace old new (f p)"] assms(2)
  have "mset (concat (map (f(p := list_replace old new (f p))) [0..<n])) + mset (f p) =
        mset (concat (map f [0..<n])) + add_mset new (mset (f p) - {#old#})"
    by (simp add: mset_list_replace)
  also have "\<dots> = add_mset new (mset (concat (map f [0..<n])) - {#old#}) + mset (f p)"
    using mset_swap_remove[of old "mset (f p)" "mset (concat (map f [0..<n]))"] assms(2) mem
    by simp
  finally show ?thesis by (simp only: add_right_cancel)
qed

lemma distinct_map_remove1:
  "distinct (map f xs) \<Longrightarrow> distinct (map f (remove1 x xs))"
proof (induction xs)
  case Nil
  then show ?case by simp
next
  case (Cons a xs)
  have "set (remove1 x xs) \<subseteq> set xs" by (rule set_remove1_subset)
  with Cons show ?case by auto
qed

lemma set_list_replace_subset:
  "set (list_replace old new xs) \<subseteq> insert new (set xs)"
  by (induction xs) auto

lemma inv_delete:
  assumes "sp_mapdb_inv rm"
  shows "sp_mapdb_inv (snd (sp_mapdb_rule_delete rm rid ty))"
proof (cases "rule_count rm = 0")
  case True
  with assms show ?thesis by (simp add: sp_mapdb_rule_delete_def)
next
  case nz: False
  show ?thesis
  proof (cases "sp_mapdb_search_hashentry (rule_id_hashmap rm) rid ty")
    case None
    with assms nz show ?thesis by (simp add: sp_mapdb_rule_delete_def)
  next
    case (Some r)
    define p where "p = unat (rule_precedence r)"
    define pm where "pm = prec_map rm"
    from search_Some[OF Some] have rin: "r \<in> set (rule_id_hashmap rm)" by simp
    from inv_in_bucket[OF assms rin]
    have rb: "r \<in> set (pm p)" and pN: "p < SP_MAPDB_RULE_MAX_PRECEDENCENUM"
      by (simp_all add: p_def pm_def)
    have res: "snd (sp_mapdb_rule_delete rm rid ty) =
        rm\<lparr>prec_map := pm(p := remove1 r (pm p)),
           rule_id_hashmap := remove1 r (rule_id_hashmap rm),
           rule_count := rule_count rm - 1\<rparr>"
      using nz Some by (simp add: sp_mapdb_rule_delete_def Let_def p_def pm_def)
    have 1: "mset (live_rules (snd (sp_mapdb_rule_delete rm rid ty))) =
             mset (rule_id_hashmap (snd (sp_mapdb_rule_delete rm rid ty)))"
      using assms mset_concat_remove1[of p SP_MAPDB_RULE_MAX_PRECEDENCENUM r pm, OF pN rb]
      by (simp add: res live_rules_def sp_mapdb_inv_def pm_def)
    have 2: "distinct (map rule_key (rule_id_hashmap (snd (sp_mapdb_rule_delete rm rid ty))))"
      using assms by (simp add: res sp_mapdb_inv_def distinct_map_remove1)
    have 3: "rule_count (snd (sp_mapdb_rule_delete rm rid ty)) =
             length (rule_id_hashmap (snd (sp_mapdb_rule_delete rm rid ty)))"
      using assms rin by (simp add: res sp_mapdb_inv_def length_remove1)
    have 4: "rule_count (snd (sp_mapdb_rule_delete rm rid ty)) \<le> SP_MAPDB_RULE_MAX"
      using assms by (auto simp: res sp_mapdb_inv_def)
    have 5: "\<forall>i < SP_MAPDB_RULE_MAX_PRECEDENCENUM.
        \<forall>rule \<in> set (prec_map (snd (sp_mapdb_rule_delete rm rid ty)) i).
          unat (rule_precedence rule) = i"
      using assms set_remove1_subset[of r "pm p"]
      by (auto simp: res sp_mapdb_inv_def pm_def)
    from 1 2 3 4 5 show ?thesis unfolding sp_mapdb_inv_def by blast
  qed
qed


lemma add_refused:
  "rule_count rm = SP_MAPDB_RULE_MAX \<or> SP_MAPDB_NO_MATCH \<le> rule_output (inner nr) \<or> \<not> an \<or>
   (sp_mapdb_search_hashentry (rule_id_hashmap rm) (id_rule nr) ty = None \<and> \<not> ah) \<Longrightarrow>
   snd (sp_mapdb_rule_add an ah rm nr ty) = rm"
  by (auto simp: sp_mapdb_rule_add_def Let_def)

lemma add_new:
  assumes "rule_count rm \<noteq> SP_MAPDB_RULE_MAX" "\<not> SP_MAPDB_NO_MATCH \<le> rule_output (inner nr)"
    "an" "ah" "sp_mapdb_search_hashentry (rule_id_hashmap rm) (id_rule nr) ty = None"
  shows "sp_mapdb_rule_add an ah rm nr ty =
    (SP_MAPDB_UPDATE_RESULT_SUCCESS_ADD,
     rm\<lparr>prec_map := (prec_map rm)(unat (rule_precedence (new_rule_node nr ty)) :=
            new_rule_node nr ty # prec_map rm (unat (rule_precedence (new_rule_node nr ty)))),
        rule_id_hashmap := new_rule_node nr ty # rule_id_hashmap rm,
        rule_count := rule_count rm + 1\<rparr>)"
  using assms by (simp add: sp_mapdb_rule_add_def Let_def)

lemma add_same:
  assumes "rule_count rm \<noteq> SP_MAPDB_RULE_MAX" "\<not> SP_MAPDB_NO_MATCH \<le> rule_output (inner nr)"
    "an" "sp_mapdb_search_hashentry (rule_id_hashmap rm) (id_rule nr) ty = Some cur"
    "unat (rule_precedence cur) = unat (rule_precedence (new_rule_node nr ty))"
  shows "sp_mapdb_rule_add an ah rm nr ty =
    (SP_MAPDB_UPDATE_RESULT_SUCCESS_MODIFY,
     rm\<lparr>prec_map := (prec_map rm)(unat (rule_precedence (new_rule_node nr ty)) :=
            list_replace cur (new_rule_node nr ty)
              (prec_map rm (unat (rule_precedence (new_rule_node nr ty))))),
        rule_id_hashmap := list_replace cur (new_rule_node nr ty) (rule_id_hashmap rm)\<rparr>)"
  using assms by (simp add: sp_mapdb_rule_add_def Let_def)

lemma add_move:
  assumes "rule_count rm \<noteq> SP_MAPDB_RULE_MAX" "\<not> SP_MAPDB_NO_MATCH \<le> rule_output (inner nr)"
    "an" "sp_mapdb_search_hashentry (rule_id_hashmap rm) (id_rule nr) ty = Some cur"
    "unat (rule_precedence cur) \<noteq> unat (rule_precedence (new_rule_node nr ty))"
  shows "sp_mapdb_rule_add an ah rm nr ty =
    (SP_MAPDB_UPDATE_RESULT_SUCCESS_MODIFY,
     rm\<lparr>prec_map := ((prec_map rm)(unat (rule_precedence cur) :=
            remove1 cur (prec_map rm (unat (rule_precedence cur)))))
          (unat (rule_precedence (new_rule_node nr ty)) :=
            new_rule_node nr ty # prec_map rm (unat (rule_precedence (new_rule_node nr ty)))),
        rule_id_hashmap := list_replace cur (new_rule_node nr ty) (rule_id_hashmap rm)\<rparr>)"
  using assms by (simp add: sp_mapdb_rule_add_def Let_def)

lemma inv_add:
  assumes "sp_mapdb_inv rm"
  shows "sp_mapdb_inv (snd (sp_mapdb_rule_add an ah rm nr ty))"
proof -
  define node where "node = new_rule_node nr ty"
  define p where "p = unat (rule_precedence node)"
  define pm where "pm = prec_map rm"
  define hm where "hm = rule_id_hashmap rm"
  define rm' where "rm' = snd (sp_mapdb_rule_add an ah rm nr ty)"
  have pN: "p < SP_MAPDB_RULE_MAX_PRECEDENCENUM"
    using prec_in_range[of "rule_precedence nr"] by (auto simp: p_def node_def new_rule_node_def split: if_splits)
  have key: "rule_key node = (id_rule nr, ty)"
    by (simp add: node_def rule_key_def new_rule_node_def)
  from assms have I1: "mset (concat (map pm [0..<SP_MAPDB_RULE_MAX_PRECEDENCENUM])) = mset hm"
    and I2: "distinct (map rule_key hm)"
    and I3: "rule_count rm = length hm"
    and I4: "rule_count rm \<le> SP_MAPDB_RULE_MAX"
    and I5: "\<And>i r. i < SP_MAPDB_RULE_MAX_PRECEDENCENUM \<Longrightarrow> r \<in> set (pm i) \<Longrightarrow>
               unat (rule_precedence r) = i"
    by (simp_all add: sp_mapdb_inv_def live_rules_def pm_def hm_def)
  consider
      (err) "rm' = rm"
    | (new) "sp_mapdb_search_hashentry hm (id_rule nr) ty = None"
        "rule_count rm \<noteq> SP_MAPDB_RULE_MAX"
        "rm' = rm\<lparr>prec_map := pm(p := node # pm p), rule_id_hashmap := node # hm,
                  rule_count := rule_count rm + 1\<rparr>"
    | (same) cur where "sp_mapdb_search_hashentry hm (id_rule nr) ty = Some cur"
        "unat (rule_precedence cur) = p"
        "rm' = rm\<lparr>prec_map := pm(p := list_replace cur node (pm p)),
                  rule_id_hashmap := list_replace cur node hm\<rparr>"
    | (move) cur where "sp_mapdb_search_hashentry hm (id_rule nr) ty = Some cur"
        "unat (rule_precedence cur) \<noteq> p"
        "rm' = rm\<lparr>prec_map := (pm(unat (rule_precedence cur) :=
                       remove1 cur (pm (unat (rule_precedence cur)))))(p := node # pm p),
                  rule_id_hashmap := list_replace cur node hm\<rparr>"
  proof (cases "rule_count rm = SP_MAPDB_RULE_MAX \<or> SP_MAPDB_NO_MATCH \<le> rule_output (inner nr) \<or> \<not> an")
    case True
    then have "rm' = rm" unfolding rm'_def by (intro add_refused) blast
    then show ?thesis by (rule that(1))
  next
    case ok: False
    show ?thesis
    proof (cases "sp_mapdb_search_hashentry (rule_id_hashmap rm) (id_rule nr) ty")
      case None
      show ?thesis
      proof (cases ah)
        case True
        from add_new[of rm nr an ah ty] ok True None
        show ?thesis by (intro that(2)) (simp_all add: rm'_def hm_def pm_def p_def node_def)
      next
        case False
        with None have "rm' = rm" unfolding rm'_def by (intro add_refused) blast
        then show ?thesis by (rule that(1))
      qed
    next
      case (Some cur)
      show ?thesis
      proof (cases "unat (rule_precedence cur) = unat (rule_precedence (new_rule_node nr ty))")
        case True
        from add_same[of rm nr an ty cur ah] ok True Some
        show ?thesis by (intro that(3)[of cur]) (simp_all add: rm'_def hm_def pm_def p_def node_def)
      next
        case False
        from add_move[of rm nr an ty cur ah] ok False Some
        show ?thesis by (intro that(4)[of cur]) (simp_all add: rm'_def hm_def pm_def p_def node_def)
      qed
    qed
  qed
  then have "mset (concat (map (prec_map rm') [0..<SP_MAPDB_RULE_MAX_PRECEDENCENUM])) =
               mset (rule_id_hashmap rm') \<and>
             distinct (map rule_key (rule_id_hashmap rm')) \<and>
             rule_count rm' = length (rule_id_hashmap rm') \<and>
             rule_count rm' \<le> SP_MAPDB_RULE_MAX \<and>
             (\<forall>i < SP_MAPDB_RULE_MAX_PRECEDENCENUM.
                \<forall>rule \<in> set (prec_map rm' i). unat (rule_precedence rule) = i)"
  proof cases
    case err
    with I1 I2 I3 I4 I5 show ?thesis by (simp add: pm_def hm_def)
  next
    case new
    from new(1) have fresh: "rule_key node \<notin> rule_key ` set hm"
      by (simp add: search_None key)
    have a: "mset (concat (map (prec_map rm') [0..<SP_MAPDB_RULE_MAX_PRECEDENCENUM])) =
             mset (rule_id_hashmap rm')"
      using mset_concat_cons[of p SP_MAPDB_RULE_MAX_PRECEDENCENUM pm node, OF pN] I1
      by (simp add: new(3))
    have b: "distinct (map rule_key (rule_id_hashmap rm'))"
      using fresh I2 by (simp add: new(3))
    have c: "rule_count rm' = length (rule_id_hashmap rm')"
      using I3 by (simp add: new(3))
    have d: "rule_count rm' \<le> SP_MAPDB_RULE_MAX"
      using I4 new(2) by (simp add: new(3))
    have e: "\<forall>i < SP_MAPDB_RULE_MAX_PRECEDENCENUM.
                \<forall>rule \<in> set (prec_map rm' i). unat (rule_precedence rule) = i"
      using I5 by (auto simp: new(3) p_def)
    from a b c d e show ?thesis by blast
  next
    case (same cur)
    from search_Some[OF same(1)] have cin: "cur \<in> set hm" and ck: "rule_key cur = (id_rule nr, ty)"
      by simp_all
    from inv_in_bucket[OF assms, of cur] cin same(2) have cb: "cur \<in> set (pm p)"
      by (simp add: hm_def pm_def)
    have a: "mset (concat (map (prec_map rm') [0..<SP_MAPDB_RULE_MAX_PRECEDENCENUM])) =
             mset (rule_id_hashmap rm')"
      using mset_concat_replace[of p SP_MAPDB_RULE_MAX_PRECEDENCENUM cur pm node, OF pN cb] I1 cin
      by (simp add: same(3) mset_list_replace)
    have b: "distinct (map rule_key (rule_id_hashmap rm'))"
      using I2 map_key_list_replace[of rule_key node cur hm] key ck by (simp add: same(3))
    have c: "rule_count rm' = length (rule_id_hashmap rm')"
      using I3 by (simp add: same(3) length_list_replace)
    have d: "rule_count rm' \<le> SP_MAPDB_RULE_MAX"
      using I4 by (simp add: same(3))
    have e: "\<forall>i < SP_MAPDB_RULE_MAX_PRECEDENCENUM.
                \<forall>rule \<in> set (prec_map rm' i). unat (rule_precedence rule) = i"
      using I5 set_list_replace_subset[of cur node "pm p"]
      by (auto simp: same(3) p_def)
    from a b c d e show ?thesis by blast
  next
    case (move cur)
    define q where "q = unat (rule_precedence cur)"
    define pm1 where "pm1 = pm(q := remove1 cur (pm q))"
    from search_Some[OF move(1)] have cin: "cur \<in> set hm" and ck: "rule_key cur = (id_rule nr, ty)"
      by simp_all
    from inv_in_bucket[OF assms, of cur] cin
    have cb: "cur \<in> set (pm q)" and qN: "q < SP_MAPDB_RULE_MAX_PRECEDENCENUM"
      by (simp_all add: hm_def pm_def q_def)
    from move(2) have qp: "q \<noteq> p" by (simp add: q_def)
    have res: "rm' = rm\<lparr>prec_map := pm1(p := node # pm1 p),
                        rule_id_hashmap := list_replace cur node hm\<rparr>"
      using qp by (simp add: move(3) pm1_def q_def)
    have m1: "mset (concat (map pm1 [0..<SP_MAPDB_RULE_MAX_PRECEDENCENUM])) = mset hm - {#cur#}"
      using mset_concat_remove1[of q SP_MAPDB_RULE_MAX_PRECEDENCENUM cur pm, OF qN cb] I1
      by (simp add: pm1_def)
    have a: "mset (concat (map (prec_map rm') [0..<SP_MAPDB_RULE_MAX_PRECEDENCENUM])) =
             mset (rule_id_hashmap rm')"
      using mset_concat_cons[of p SP_MAPDB_RULE_MAX_PRECEDENCENUM pm1 node, OF pN] m1 cin
      by (simp add: res mset_list_replace)
    have b: "distinct (map rule_key (rule_id_hashmap rm'))"
      using I2 map_key_list_replace[of rule_key node cur hm] key ck by (simp add: res)
    have c: "rule_count rm' = length (rule_id_hashmap rm')"
      using I3 by (simp add: res length_list_replace)
    have d: "rule_count rm' \<le> SP_MAPDB_RULE_MAX"
      using I4 by (simp add: res)
    have e: "\<forall>i < SP_MAPDB_RULE_MAX_PRECEDENCENUM.
                \<forall>rule \<in> set (prec_map rm' i). unat (rule_precedence rule) = i"
      using I5 set_remove1_subset[of cur "pm q"]
      by (auto simp: res pm1_def p_def)
    from a b c d e show ?thesis by blast
  qed
  then show ?thesis by (simp add: sp_mapdb_inv_def live_rules_def rm'_def)
qed


lemma single_writer_add [simp]:
  "single_writer (snd (sp_mapdb_rule_add an ah rm nr ty)) = single_writer rm"
  by (simp add: sp_mapdb_rule_add_def Let_def split: option.splits)

lemma single_writer_delete [simp]:
  "single_writer (snd (sp_mapdb_rule_delete rm rid ty)) = single_writer rm"
  by (simp add: sp_mapdb_rule_delete_def Let_def split: option.splits)

lemma update_unlocked:
  "\<not> single_writer rm \<Longrightarrow> \<not> single_writer (snd (sp_mapdb_rule_update an ah rm nr))"
  by (simp add: sp_mapdb_rule_update_def Let_def split: option.splits prod.splits)

lemma inv_update:
  assumes "sp_mapdb_inv rm"
  shows "sp_mapdb_inv (snd (sp_mapdb_rule_update an ah rm nr))"
proof (cases nr)
  case None
  with assms show ?thesis by (simp add: sp_mapdb_rule_update_def)
next
  case (Some newrule)
  define locked where "locked = rm\<lparr>single_writer := True\<rparr>"
  from assms have l: "sp_mapdb_inv locked" by (simp add: locked_def)
  have "sp_mapdb_inv (snd (sp_mapdb_rule_delete locked (id_rule newrule) (classifier_type newrule)))"
    using l by (rule inv_delete)
  moreover have "sp_mapdb_inv (snd (sp_mapdb_rule_add an ah locked newrule (classifier_type newrule)))"
    using l by (rule inv_add)
  ultimately show ?thesis using assms Some
    by (auto simp: sp_mapdb_rule_update_def Let_def locked_def split: prod.splits)
qed

lemma sp_run_snoc: "sp_run (ops @ [x]) = sp_apply_operation (sp_run ops) x"
  by (simp add: sp_run_def)

lemma inv_run: "sp_mapdb_inv (sp_run ops) \<and> \<not> single_writer (sp_run ops)"
proof (induction ops rule: rev_induct)
  case Nil
  show ?case using inv_init by (simp add: sp_run_def sp_mapdb_rules_init_def)
next
  case (snoc x ops)
  show ?case
  proof (cases x)
    case (Update nr an ah)
    with snoc show ?thesis by (simp add: sp_run_snoc inv_update update_unlocked)
  next
    case Flush
    with snoc show ?thesis
      by (simp add: sp_run_snoc inv_flush) (simp add: sp_mapdb_ruletable_flush_def)
  qed
qed

lemma inv_live_keys:
  assumes "sp_mapdb_inv rm"
  shows "set (live_rules rm) = set (rule_id_hashmap rm)"
    and "distinct (map rule_key (live_rules rm))"
    and "rule_count rm = card (rule_key ` set (live_rules rm))"
    and "rule_count rm = length (live_rules rm)"
proof -
  from assms have m: "mset (live_rules rm) = mset (rule_id_hashmap rm)"
    and d: "distinct (map rule_key (rule_id_hashmap rm))"
    and c: "rule_count rm = length (rule_id_hashmap rm)"
    by (simp_all add: sp_mapdb_inv_def)
  from m show s: "set (live_rules rm) = set (rule_id_hashmap rm)" by (rule mset_eq_setD)
  from m have "mset (map rule_key (live_rules rm)) = mset (map rule_key (rule_id_hashmap rm))"
    by simp
  with d show "distinct (map rule_key (live_rules rm))"
    using mset_eq_imp_distinct_iff by blast
  from d have "card (set (map rule_key (rule_id_hashmap rm))) = length (map rule_key (rule_id_hashmap rm))"
    by (rule distinct_card)
  with c s show "rule_count rm = card (rule_key ` set (live_rules rm))" by simp
  from m c show "rule_count rm = length (live_rules rm)" using mset_eq_length by fastforce
qed

text \<open>
  Claim C2. After every sequence of update requests (add, modify, delete, whatever their
  allocations do) and flushes from the initialized table, the rule count is the number of
  distinct (id, type) pairs live in the buckets, no two live rules share such a pair, and
  the count is at most \<^verbatim>\<open>SP_MAPDB_RULE_MAX\<close>.
\<close>

theorem rule_count_invariant:
  "rule_count (sp_run ops) = card (rule_key ` set (live_rules (sp_run ops))) \<and>
   distinct (map rule_key (live_rules (sp_run ops))) \<and>
   rule_count (sp_run ops) \<le> SP_MAPDB_RULE_MAX"
proof -
  have i: "sp_mapdb_inv (sp_run ops)" using inv_run by blast
  from inv_live_keys(2,3)[OF i] i show ?thesis by (simp add: sp_mapdb_inv_def)
qed

subsection \<open>Deleting a rule that is not there\<close>

lemmas run_defs = sp_run_def sp_mapdb_rule_update_def sp_mapdb_rule_add_def
  sp_mapdb_rule_delete_def Let_def sp_mapdb_rules_init_def sp_mapdb_search_hashentry_def
  new_rule_node_def SP_MAPDB_RULE_MAX_PRECEDENCENUM_def SP_MAPDB_RULE_MAX_def
  SP_MAPDB_NO_MATCH_def SP_MAPDB_ADD_REMOVE_FILTER_ADD_def
  SP_MAPDB_ADD_REMOVE_FILTER_DELETE_def

lemma live_rules_single_writer [simp]:
  "live_rules (rm\<lparr>single_writer := b\<rparr>) = live_rules rm"
  by (simp add: live_rules_def)

lemma delete_absent_inv:
  assumes "sp_mapdb_inv rm" "(ruleid, rule_type) \<notin> rule_key ` set (live_rules rm)"
  shows "sp_mapdb_rule_delete rm ruleid rule_type =
           (if live_rules rm = [] then SP_MAPDB_UPDATE_RESULT_ERR_TBLEMPTY
            else SP_MAPDB_UPDATE_RESULT_ERR_RULENOEXIST, rm)"
proof -
  from assms inv_live_keys(1)[OF assms(1)]
  have "sp_mapdb_search_hashentry (rule_id_hashmap rm) ruleid rule_type = None"
    by (simp add: search_None)
  moreover from inv_live_keys(4)[OF assms(1)]
  have "rule_count rm = 0 \<longleftrightarrow> live_rules rm = []" by simp
  ultimately show ?thesis by (simp add: sp_mapdb_rule_delete_def)
qed

text \<open>
  Claim C7. In every table that a sequence of operations can produce, deleting an
  (id, type) pair that is not live returns the rule-not-found error, or the table-empty
  error when no rule is live at all, and leaves the table (buckets, index and count) as
  it was. The same holds for the delete command sent through \<^verbatim>\<open>sp_mapdb_rule_update\<close>.
\<close>

theorem delete_absent:
  assumes "(ruleid, rule_type) \<notin> rule_key ` set (live_rules (sp_run ops))"
  shows "sp_mapdb_rule_delete (sp_run ops) ruleid rule_type =
           (if live_rules (sp_run ops) = [] then SP_MAPDB_UPDATE_RESULT_ERR_TBLEMPTY
            else SP_MAPDB_UPDATE_RESULT_ERR_RULENOEXIST, sp_run ops) \<and>
         (\<forall>newrule an ah.
            cmd newrule = SP_MAPDB_ADD_REMOVE_FILTER_DELETE \<and>
            id_rule newrule = ruleid \<and> classifier_type newrule = rule_type \<longrightarrow>
            sp_mapdb_rule_update an ah (sp_run ops) (Some newrule) =
              (if live_rules (sp_run ops) = [] then SP_MAPDB_UPDATE_RESULT_ERR_TBLEMPTY
               else SP_MAPDB_UPDATE_RESULT_ERR_RULENOEXIST, sp_run ops))"
proof -
  have i: "sp_mapdb_inv (sp_run ops)" and w: "\<not> single_writer (sp_run ops)"
    using inv_run by blast+
  have d: "sp_mapdb_rule_delete (sp_run ops) ruleid rule_type =
           (if live_rules (sp_run ops) = [] then SP_MAPDB_UPDATE_RESULT_ERR_TBLEMPTY
            else SP_MAPDB_UPDATE_RESULT_ERR_RULENOEXIST, sp_run ops)"
    using i assms by (rule delete_absent_inv)
  have "sp_mapdb_rule_delete ((sp_run ops)\<lparr>single_writer := True\<rparr>) ruleid rule_type =
           (if live_rules (sp_run ops) = [] then SP_MAPDB_UPDATE_RESULT_ERR_TBLEMPTY
            else SP_MAPDB_UPDATE_RESULT_ERR_RULENOEXIST, (sp_run ops)\<lparr>single_writer := True\<rparr>)"
    using delete_absent_inv[of "(sp_run ops)\<lparr>single_writer := True\<rparr>" ruleid rule_type] i assms
    by simp
  then have "sp_mapdb_rule_update an ah (sp_run ops) (Some newrule) =
              (if live_rules (sp_run ops) = [] then SP_MAPDB_UPDATE_RESULT_ERR_TBLEMPTY
               else SP_MAPDB_UPDATE_RESULT_ERR_RULENOEXIST, sp_run ops)"
    if "cmd newrule = SP_MAPDB_ADD_REMOVE_FILTER_DELETE" "id_rule newrule = ruleid"
       "classifier_type newrule = rule_type" for newrule an ah
    using that w by (simp add: sp_mapdb_rule_update_def Let_def)
  with d show ?thesis by blast
qed

text \<open>
  Witness for C7: with rule A alone in the table, deleting (7, MESH) is refused as not
  found; in the initial table it is refused as table empty. Both leave the table as it is.
\<close>

theorem delete_absent_witness:
  "(7, SP_RULE_TYPE_MESH) \<notin> rule_key ` set (live_rules (sp_run [Update (Some rule_A) True True])) \<and>
   sp_mapdb_rule_delete (sp_run [Update (Some rule_A) True True]) 7 SP_RULE_TYPE_MESH =
     (SP_MAPDB_UPDATE_RESULT_ERR_RULENOEXIST, sp_run [Update (Some rule_A) True True]) \<and>
   sp_mapdb_rule_delete (sp_run []) 7 SP_RULE_TYPE_MESH =
     (SP_MAPDB_UPDATE_RESULT_ERR_TBLEMPTY, sp_run [])"
proof -
  have h: "(7, SP_RULE_TYPE_MESH) \<notin>
      rule_key ` set (live_rules (sp_run [Update (Some rule_A) True True]))"
    by (simp add: in_live_rules image_iff run_defs rule_A_def blank_rule_def rule_key_def)
  have ne: "live_rules (sp_run [Update (Some rule_A) True True]) \<noteq> []"
  proof -
    have "rule_A \<in> set (live_rules (sp_run [Update (Some rule_A) True True]))"
      by (simp add: in_live_rules run_defs rule_A_def blank_rule_def)
    then show ?thesis by auto
  qed
  have e: "live_rules (sp_run []) = []"
    by (simp add: sp_run_def sp_mapdb_rules_init_def live_rules_def concat_empty)
  then have h0: "(7, SP_RULE_TYPE_MESH) \<notin> rule_key ` set (live_rules (sp_run []))"
    by simp
  from delete_absent[OF h] delete_absent[OF h0] h ne e show ?thesis by simp
qed

subsection \<open>A full table\<close>

text \<open>
  Claim C10. When the rule count equals \<^verbatim>\<open>SP_MAPDB_RULE_MAX\<close>, \<^verbatim>\<open>sp_mapdb_rule_add\<close>
  answers table-full for every request, whatever its id and type (so also for one
  that names a live rule and would only modify it), and the table is unchanged; the add
  command sent through \<^verbatim>\<open>sp_mapdb_rule_update\<close> does the same.
\<close>

theorem add_table_full:
  assumes "rule_count rm = SP_MAPDB_RULE_MAX"
  shows "sp_mapdb_rule_add an ah rm nr ty = (SP_MAPDB_UPDATE_RESULT_ERR_TBLFULL, rm) \<and>
         (\<not> single_writer rm \<and> cmd nr = SP_MAPDB_ADD_REMOVE_FILTER_ADD \<longrightarrow>
            sp_mapdb_rule_update an ah rm (Some nr) = (SP_MAPDB_UPDATE_RESULT_ERR_TBLFULL, rm))"
proof -
  have a: "\<And>m. rule_count m = SP_MAPDB_RULE_MAX \<Longrightarrow>
     sp_mapdb_rule_add an ah m nr ty = (SP_MAPDB_UPDATE_RESULT_ERR_TBLFULL, m)"
    by (simp add: sp_mapdb_rule_add_def)
  have "sp_mapdb_rule_add an ah (rm\<lparr>single_writer := True\<rparr>) nr (classifier_type nr) =
      (SP_MAPDB_UPDATE_RESULT_ERR_TBLFULL, rm\<lparr>single_writer := True\<rparr>)"
    using assms by (simp add: sp_mapdb_rule_add_def)
  then have "\<not> single_writer rm \<Longrightarrow> cmd nr = SP_MAPDB_ADD_REMOVE_FILTER_ADD \<Longrightarrow>
     sp_mapdb_rule_update an ah rm (Some nr) = (SP_MAPDB_UPDATE_RESULT_ERR_TBLFULL, rm)"
    by (simp add: sp_mapdb_rule_update_def Let_def SP_MAPDB_ADD_REMOVE_FILTER_ADD_def
          SP_MAPDB_ADD_REMOVE_FILTER_DELETE_def)
  with a[OF assms] show ?thesis by blast
qed

text \<open>
  Witness for C10: the full table holds rule (3, MESH); the request to modify it is
  refused as table full.
\<close>

theorem add_table_full_witness:
  "rule_count full_table = SP_MAPDB_RULE_MAX \<and>
   sp_mapdb_search_hashentry (rule_id_hashmap full_table) (id_rule modify_request)
      (classifier_type modify_request) \<noteq> None \<and>
   sp_mapdb_rule_update True True full_table (Some modify_request) =
     (SP_MAPDB_UPDATE_RESULT_ERR_TBLFULL, full_table)"
proof -
  have h: "rule_count full_table = SP_MAPDB_RULE_MAX" by (simp add: full_table_def)
  have "(3::nat) \<in> set [0..<SP_MAPDB_RULE_MAX]" by (simp add: SP_MAPDB_RULE_MAX_def)
  then have "blank_rule\<lparr>id_rule := of_nat 3, classifier_type := SP_RULE_TYPE_MESH\<rparr>
      \<in> set full_rules"
    by (auto simp: full_rules_def image_iff intro!: bexI[of _ "3::nat"])
  then have k: "sp_mapdb_search_hashentry (rule_id_hashmap full_table) (id_rule modify_request)
      (classifier_type modify_request) \<noteq> None"
    by (auto simp: search_None full_table_def modify_request_def rule_key_def image_iff
         intro!: bexI[of _ "blank_rule\<lparr>id_rule := of_nat 3, classifier_type := SP_RULE_TYPE_MESH\<rparr>"])
  have "\<not> single_writer full_table" "cmd modify_request = SP_MAPDB_ADD_REMOVE_FILTER_ADD"
    by (simp_all add: full_table_def modify_request_def)
  with add_table_full[OF h, of True True modify_request] h k show ?thesis by simp
qed

subsection \<open>The precedence sentinel\<close>

text \<open>
  Claim C8. A request whose precedence is the sentinel \<^verbatim>\<open>SP_MAPDB_RULE_MAX_PRECEDENCENUM\<close>
  is stored with precedence 0, and \<^verbatim>\<open>sp_mapdb_rule_add\<close> treats it exactly as the same
  request with precedence 0 written out. It is not refused for its precedence: in a
  table that is not full, with a valid output and both allocations succeeding, the
  request is accepted (as an add or a modify) and its node is then in bucket 0.
\<close>

theorem max_precedence_is_zero:
  assumes "unat (rule_precedence nr) = SP_MAPDB_RULE_MAX_PRECEDENCENUM"
  shows "rule_precedence (new_rule_node nr ty) = 0 \<and>
         sp_mapdb_rule_add an ah rm nr ty =
           sp_mapdb_rule_add an ah rm (nr\<lparr>rule_precedence := 0\<rparr>) ty \<and>
         (sp_mapdb_inv rm \<and> rule_count rm \<noteq> SP_MAPDB_RULE_MAX \<and>
          rule_output (inner nr) < SP_MAPDB_NO_MATCH \<and> an \<and> ah \<longrightarrow>
            fst (sp_mapdb_rule_add an ah rm nr ty) \<in>
              {SP_MAPDB_UPDATE_RESULT_SUCCESS_ADD, SP_MAPDB_UPDATE_RESULT_SUCCESS_MODIFY} \<and>
            new_rule_node nr ty \<in> set (prec_map (snd (sp_mapdb_rule_add an ah rm nr ty)) 0))"
proof -
  have z: "rule_precedence (new_rule_node nr ty) = 0"
    using assms by (simp add: new_rule_node_def)
  have n: "new_rule_node (nr\<lparr>rule_precedence := 0\<rparr>) ty = new_rule_node nr ty"
    using assms by (simp add: new_rule_node_def SP_MAPDB_RULE_MAX_PRECEDENCENUM_def)
  have e: "sp_mapdb_rule_add an ah rm nr ty =
           sp_mapdb_rule_add an ah rm (nr\<lparr>rule_precedence := 0\<rparr>) ty"
    by (simp add: sp_mapdb_rule_add_def n)
  have s: "fst (sp_mapdb_rule_add an ah rm nr ty) \<in>
              {SP_MAPDB_UPDATE_RESULT_SUCCESS_ADD, SP_MAPDB_UPDATE_RESULT_SUCCESS_MODIFY} \<and>
            new_rule_node nr ty \<in> set (prec_map (snd (sp_mapdb_rule_add an ah rm nr ty)) 0)"
    if i: "sp_mapdb_inv rm" and c: "rule_count rm \<noteq> SP_MAPDB_RULE_MAX"
      and o: "rule_output (inner nr) < SP_MAPDB_NO_MATCH" and "an" "ah"
  proof (cases "sp_mapdb_search_hashentry (rule_id_hashmap rm) (id_rule nr) ty")
    case None
    from o have o': "\<not> SP_MAPDB_NO_MATCH \<le> rule_output (inner nr)" by simp
    from add_new[OF c o' \<open>an\<close> \<open>ah\<close> None] z show ?thesis by simp
  next
    case (Some cur)
    from o have o': "\<not> SP_MAPDB_NO_MATCH \<le> rule_output (inner nr)" by simp
    from search_Some[OF Some] have cin: "cur \<in> set (rule_id_hashmap rm)" by simp
    show ?thesis
    proof (cases "unat (rule_precedence cur) = unat (rule_precedence (new_rule_node nr ty))")
      case True
      with inv_in_bucket[OF i cin] z have "cur \<in> set (prec_map rm 0)" by simp
      then have "new_rule_node nr ty \<in>
          set (list_replace cur (new_rule_node nr ty) (prec_map rm 0))"
        by (rule set_list_replace)
      with add_same[OF c o' \<open>an\<close> Some True, of ah] z show ?thesis by simp
    next
      case False
      from add_move[OF c o' \<open>an\<close> Some False, of ah] z show ?thesis by simp
    qed
  qed
  from z e s show ?thesis by blast
qed

text \<open>
  Witness for C8: the request with precedence \<^verbatim>\<open>0xFF\<close>, added to the initial table, is
  accepted as a new rule and is the one node of bucket 0, with precedence 0.
\<close>

theorem max_precedence_is_zero_witness:
  "unat (rule_precedence sentinel_request) = SP_MAPDB_RULE_MAX_PRECEDENCENUM \<and>
   sp_mapdb_inv sp_mapdb_rules_init \<and>
   rule_count sp_mapdb_rules_init \<noteq> SP_MAPDB_RULE_MAX \<and>
   rule_output (inner sentinel_request) < SP_MAPDB_NO_MATCH \<and>
   sp_mapdb_rule_add True True sp_mapdb_rules_init sentinel_request SP_RULE_TYPE_MESH =
     sp_mapdb_rule_add True True sp_mapdb_rules_init
       (sentinel_request\<lparr>rule_precedence := 0\<rparr>) SP_RULE_TYPE_MESH \<and>
   fst (sp_mapdb_rule_add True True sp_mapdb_rules_init sentinel_request SP_RULE_TYPE_MESH) =
     SP_MAPDB_UPDATE_RESULT_SUCCESS_ADD \<and>
   sentinel_request\<lparr>rule_precedence := 0\<rparr> \<in>
     set (prec_map (snd (sp_mapdb_rule_add True True sp_mapdb_rules_init sentinel_request
            SP_RULE_TYPE_MESH)) 0)"
proof -
  have h: "unat (rule_precedence sentinel_request) = SP_MAPDB_RULE_MAX_PRECEDENCENUM"
    by (simp add: sentinel_request_def SP_MAPDB_RULE_MAX_PRECEDENCENUM_def)
  have c: "rule_count sp_mapdb_rules_init \<noteq> SP_MAPDB_RULE_MAX"
    by (simp add: sp_mapdb_rules_init_def SP_MAPDB_RULE_MAX_def)
  have o: "rule_output (inner sentinel_request) < SP_MAPDB_NO_MATCH"
    by (simp add: sentinel_request_def blank_rule_def SP_MAPDB_NO_MATCH_def)
  have n: "new_rule_node sentinel_request SP_RULE_TYPE_MESH =
      sentinel_request\<lparr>rule_precedence := 0\<rparr>"
    by (simp add: new_rule_node_def sentinel_request_def SP_MAPDB_RULE_MAX_PRECEDENCENUM_def)
  have f: "fst (sp_mapdb_rule_add True True sp_mapdb_rules_init sentinel_request
      SP_RULE_TYPE_MESH) = SP_MAPDB_UPDATE_RESULT_SUCCESS_ADD"
    using c o by (simp add: sp_mapdb_rule_add_def Let_def sp_mapdb_search_hashentry_def
        sp_mapdb_rules_init_def)
  note t = max_precedence_is_zero[OF h, of SP_RULE_TYPE_MESH True True sp_mapdb_rules_init]
  from t have e: "sp_mapdb_rule_add True True sp_mapdb_rules_init sentinel_request
      SP_RULE_TYPE_MESH =
     sp_mapdb_rule_add True True sp_mapdb_rules_init
       (sentinel_request\<lparr>rule_precedence := 0\<rparr>) SP_RULE_TYPE_MESH"
    by blast
  from t inv_init c o have "new_rule_node sentinel_request SP_RULE_TYPE_MESH \<in>
     set (prec_map (snd (sp_mapdb_rule_add True True sp_mapdb_rules_init sentinel_request
            SP_RULE_TYPE_MESH)) 0)"
    by blast
  then have m: "sentinel_request\<lparr>rule_precedence := 0\<rparr> \<in>
     set (prec_map (snd (sp_mapdb_rule_add True True sp_mapdb_rules_init sentinel_request
            SP_RULE_TYPE_MESH)) 0)"
    unfolding n .
  from h inv_init c o e f m show ?thesis by blast
qed

subsection \<open>MESH classification on an empty table\<close>

text \<open>
  Claim C4. With an empty table (rule count 0), the MESH classification of an IPv4 packet
  is the DS field shifted right by 5, which is the DSCP (the DS field shifted by 2)
  shifted by 3: the top three bits of the six-bit DSCP. For DSCP 32 the result is 4.
\<close>

theorem empty_table_uses_dscp:
  assumes "rule_count rm = 0" "uint (ntohs (skb_protocol skb)) = ETH_P_IP"
  shows "sp_mapdb_ruletable_search rm skb smac dmac = drop_bit 3 (drop_bit 2 (iph_tos skb)) \<and>
         (drop_bit 2 (iph_tos skb) = 32 \<longrightarrow> sp_mapdb_ruletable_search rm skb smac dmac = 4)"
proof -
  have "sp_mapdb_ruletable_search rm skb smac dmac = drop_bit 5 (iph_tos skb)"
    using assms
    by (simp add: sp_mapdb_ruletable_search_def set_output_def Let_def SP_MAPDB_USE_UP_def
          SP_MAPDB_USE_DSCP_def)
  also have "drop_bit 5 (iph_tos skb) = drop_bit 3 (drop_bit 2 (iph_tos skb))"
    by simp
  finally have e: "sp_mapdb_ruletable_search rm skb smac dmac =
      drop_bit 3 (drop_bit 2 (iph_tos skb))" .
  have "sp_mapdb_ruletable_search rm skb smac dmac = 4" if "drop_bit 2 (iph_tos skb) = 32"
    unfolding e that by simp
  with e show ?thesis by blast
qed

text \<open>
  Witness for C4: the initial table and the IPv4 packet with DS field 128 (DSCP 32); the
  result 4 is neither the DSCP 32 nor the default priority.
\<close>

theorem empty_table_uses_dscp_witness:
  "rule_count sp_mapdb_rules_init = 0 \<and>
   uint (ntohs (skb_protocol ipv4_packet)) = ETH_P_IP \<and>
   drop_bit 2 (iph_tos ipv4_packet) = 32 \<and>
   sp_mapdb_ruletable_search sp_mapdb_rules_init ipv4_packet 0 0 = 4 \<and>
   (4 :: u8) \<noteq> 32 \<and> (4 :: u8) \<noteq> SP_MAPDB_RULE_DEFAULT_PCP"
proof -
  have c: "rule_count sp_mapdb_rules_init = 0" by (simp add: sp_mapdb_rules_init_def)
  have p: "uint (ntohs (skb_protocol ipv4_packet)) = ETH_P_IP"
    by (simp add: ipv4_packet_def ntohs_def ETH_P_IP_def)
  have d: "drop_bit 2 (iph_tos ipv4_packet) = 32"
    by (simp add: ipv4_packet_def)
  from empty_table_uses_dscp[OF c p, of 0 0] c p d show ?thesis
    by (simp add: SP_MAPDB_RULE_DEFAULT_PCP_def)
qed

subsection \<open>MESH classification: the first match in descending precedence wins\<close>

lemma find_app:
  "find P (xs @ ys) = (case find P xs of None \<Rightarrow> find P ys | Some x \<Rightarrow> Some x)"
  by (induction xs) auto

lemma bucket_find:
  "ruletable_search_bucket skb smac dmac rs =
     map_option (\<lambda>r. rule_output (inner r)) (find (\<lambda>r. classifier_type r = SP_RULE_TYPE_MESH \<and> sp_mapdb_rule_match skb r smac dmac) rs)"
  by (induction rs) auto

lemma loop_find:
  "ruletable_search_loop skb smac dmac pm n =
     map_option (\<lambda>r. rule_output (inner r))
       (find (\<lambda>r. classifier_type r = SP_RULE_TYPE_MESH \<and> sp_mapdb_rule_match skb r smac dmac) (concat (map pm (rev [0..<n]))))"
proof (induction n)
  case 0
  show ?case by simp
next
  case (Suc n)
  show ?case
    by (cases "find (\<lambda>r. classifier_type r = SP_RULE_TYPE_MESH \<and> sp_mapdb_rule_match skb r smac dmac) (pm n)")
       (simp_all add: Suc bucket_find find_app)
qed

lemma bucket_hit:
  "\<exists>r \<in> set rs. (classifier_type r = SP_RULE_TYPE_MESH \<and> sp_mapdb_rule_match skb r smac dmac) \<Longrightarrow>
   ruletable_search_bucket skb smac dmac rs \<noteq> None"
  by (induction rs) auto

lemma loop_upper:
  assumes "p < n" "\<exists>r \<in> set (pm p). (classifier_type r = SP_RULE_TYPE_MESH \<and> sp_mapdb_rule_match skb r smac dmac)"
    "\<And>i. p \<le> i \<Longrightarrow> pm' i = pm i"
  shows "ruletable_search_loop skb smac dmac pm' n = ruletable_search_loop skb smac dmac pm n"
  using assms(1)
proof (induction n)
  case 0
  then show ?case by simp
next
  case (Suc n)
  show ?case
  proof (cases "p = n")
    case True
    with assms(3)[of n] bucket_hit[OF assms(2)] show ?thesis
      by (auto split: option.splits)
  next
    case False
    with Suc.prems have "p < n" by simp
    with Suc.IH assms(3)[of n] show ?thesis by (auto split: option.splits)
  qed
qed

lemma bucket_only:
  assumes "\<And>r. r \<in> set rs \<Longrightarrow> (classifier_type r = SP_RULE_TYPE_MESH \<and> sp_mapdb_rule_match skb r smac dmac) \<Longrightarrow> r = A"
  shows "ruletable_search_bucket skb smac dmac rs =
    (if \<exists>r \<in> set rs. (classifier_type r = SP_RULE_TYPE_MESH \<and> sp_mapdb_rule_match skb r smac dmac) then Some (rule_output (inner A)) else None)"
  using assms by (induction rs) auto

lemma loop_only:
  assumes "p < n" "A \<in> set (pm p)" "(classifier_type A = SP_RULE_TYPE_MESH \<and> sp_mapdb_rule_match skb A smac dmac)"
    "\<And>i r. p \<le> i \<Longrightarrow> i < n \<Longrightarrow> r \<in> set (pm i) \<Longrightarrow> (classifier_type r = SP_RULE_TYPE_MESH \<and> sp_mapdb_rule_match skb r smac dmac) \<Longrightarrow> r = A"
  shows "ruletable_search_loop skb smac dmac pm n = Some (rule_output (inner A))"
  using assms(1,4)
proof (induction n)
  case 0
  then show ?case by simp
next
  case (Suc n)
  have b: "ruletable_search_bucket skb smac dmac (pm n) =
    (if \<exists>r \<in> set (pm n). (classifier_type r = SP_RULE_TYPE_MESH \<and> sp_mapdb_rule_match skb r smac dmac) then Some (rule_output (inner A)) else None)"
    using Suc.prems(2)[of n] Suc.prems(1) by (intro bucket_only) auto
  show ?case
  proof (cases "p = n")
    case True
    with b assms(2,3) show ?thesis by auto
  next
    case False
    with Suc.prems have "p < n" by simp
    with Suc.IH Suc.prems(2) have "ruletable_search_loop skb smac dmac pm n = Some (rule_output (inner A))"
      by simp
    with b show ?thesis by simp
  qed
qed

text \<open>
  Claim C1. On a table with rules, \<^verbatim>\<open>sp_mapdb_ruletable_search\<close> goes through the buckets
  from the highest index down to 0, each from its head, and takes the output of the
  first rule that is of type MESH and that \<^verbatim>\<open>sp_mapdb_rule_match\<close> accepts for the
  packet; rules of another type and MESH rules that do not match are passed over. The
  value returned is that output, resolved at \<^verbatim>\<open>set_output\<close> (an explicit priority is
  returned as it is). Once a MESH rule in bucket \<open>p\<close> matches, the buckets below \<open>p\<close>
  have no influence: any table with the same buckets from \<open>p\<close> upwards gives the same
  result. In particular, when A in bucket \<open>p\<close> is a matching MESH rule and the only one
  from bucket \<open>p\<close> upwards, the result is A's output, whatever matches below.
\<close>

theorem mesh_first_match_wins:
  assumes "rule_count rm \<noteq> 0"
  shows "sp_mapdb_ruletable_search rm skb smac dmac =
           set_output skb
             (case find (\<lambda>rule. classifier_type rule = SP_RULE_TYPE_MESH \<and>
                                sp_mapdb_rule_match skb rule smac dmac)
                     (descending_rules rm) of
                None \<Rightarrow> SP_MAPDB_NO_MATCH
              | Some rule \<Rightarrow> rule_output (inner rule)) \<and>
         (\<forall>p rm'. p < SP_MAPDB_RULE_MAX_PRECEDENCENUM \<and>
            (\<exists>rule \<in> set (prec_map rm p).
                classifier_type rule = SP_RULE_TYPE_MESH \<and>
                sp_mapdb_rule_match skb rule smac dmac) \<and>
            rule_count rm' \<noteq> 0 \<and> (\<forall>i \<ge> p. prec_map rm' i = prec_map rm i) \<longrightarrow>
            sp_mapdb_ruletable_search rm' skb smac dmac =
              sp_mapdb_ruletable_search rm skb smac dmac) \<and>
         (\<forall>p A. p < SP_MAPDB_RULE_MAX_PRECEDENCENUM \<and> A \<in> set (prec_map rm p) \<and>
            classifier_type A = SP_RULE_TYPE_MESH \<and> sp_mapdb_rule_match skb A smac dmac \<and>
            (\<forall>i rule. p \<le> i \<and> i < SP_MAPDB_RULE_MAX_PRECEDENCENUM \<and>
               rule \<in> set (prec_map rm i) \<and> classifier_type rule = SP_RULE_TYPE_MESH \<and>
               sp_mapdb_rule_match skb rule smac dmac \<longrightarrow> rule = A) \<longrightarrow>
            sp_mapdb_ruletable_search rm skb smac dmac =
              set_output skb (rule_output (inner A)))"
proof -
  have 1: "sp_mapdb_ruletable_search rm skb smac dmac =
           set_output skb
             (case find (\<lambda>rule. classifier_type rule = SP_RULE_TYPE_MESH \<and>
                                sp_mapdb_rule_match skb rule smac dmac)
                     (descending_rules rm) of
                None \<Rightarrow> SP_MAPDB_NO_MATCH
              | Some rule \<Rightarrow> rule_output (inner rule))"
    using assms
    by (simp add: sp_mapdb_ruletable_search_def loop_find descending_rules_def
          split: option.splits)
  have 2: "sp_mapdb_ruletable_search rm' skb smac dmac =
              sp_mapdb_ruletable_search rm skb smac dmac"
    if "p < SP_MAPDB_RULE_MAX_PRECEDENCENUM"
      "\<exists>rule \<in> set (prec_map rm p).
          classifier_type rule = SP_RULE_TYPE_MESH \<and> sp_mapdb_rule_match skb rule smac dmac"
      "rule_count rm' \<noteq> 0" "\<forall>i \<ge> p. prec_map rm' i = prec_map rm i" for p rm'
    using loop_upper[of p SP_MAPDB_RULE_MAX_PRECEDENCENUM "prec_map rm" skb smac dmac
        "prec_map rm'", OF that(1,2)] that(3,4) assms
    by (simp add: sp_mapdb_ruletable_search_def)
  have 3: "sp_mapdb_ruletable_search rm skb smac dmac = set_output skb (rule_output (inner A))"
    if "p < SP_MAPDB_RULE_MAX_PRECEDENCENUM" "A \<in> set (prec_map rm p)"
      "classifier_type A = SP_RULE_TYPE_MESH \<and> sp_mapdb_rule_match skb A smac dmac"
      "\<forall>i rule. p \<le> i \<and> i < SP_MAPDB_RULE_MAX_PRECEDENCENUM \<and>
               rule \<in> set (prec_map rm i) \<and> classifier_type rule = SP_RULE_TYPE_MESH \<and>
               sp_mapdb_rule_match skb rule smac dmac \<longrightarrow> rule = A"
    for p A
    using loop_only[of p SP_MAPDB_RULE_MAX_PRECEDENCENUM A "prec_map rm" skb smac dmac,
        OF that(1,2,3)] that(4) assms
    by (simp add: sp_mapdb_ruletable_search_def)
  from 1 2 3 show ?thesis by blast
qed

lemma table_SMAB_eq:
  "table_SMAB =
     \<lparr>prec_map = (\<lambda>i. [])(3 := [rule_B], 10 := [rule_A], 20 := [rule_S], 15 := [rule_M]),
      rule_id_hashmap = [rule_M, rule_S, rule_A, rule_B], rule_count = 4,
      single_writer = False\<rparr>"
  by (simp add: table_SMAB_def run_defs rule_A_def rule_B_def rule_S_def rule_M_def
        blank_rule_def SP_RULE_TYPE_MESH_def SP_RULE_TYPE_SAWF_def)

lemma table_SMA_eq:
  "table_SMA =
     \<lparr>prec_map = (\<lambda>i. [])(10 := [rule_A], 20 := [rule_S], 15 := [rule_M]),
      rule_id_hashmap = [rule_M, rule_S, rule_A], rule_count = 3,
      single_writer = False\<rparr>"
  by (simp add: table_SMA_def run_defs rule_A_def rule_S_def rule_M_def
        blank_rule_def SP_RULE_TYPE_MESH_def SP_RULE_TYPE_SAWF_def)

text \<open>
  Witness for C1: a packet from 00:11:22:33:44:55 and the table of S (SAWF, precedence 20,
  would match), M (MESH, precedence 15, does not match), A (MESH, precedence 10, matches)
  and B (MESH, precedence 3, matches). The result is A's output 5, not the 7 of S, the 6
  of M or the 2 of B, and it is the result of the table without B.
\<close>

theorem mesh_first_match_wins_witness:
  "rule_count table_SMAB \<noteq> 0 \<and>
   rule_S \<in> set (prec_map table_SMAB 20) \<and> classifier_type rule_S \<noteq> SP_RULE_TYPE_MESH \<and>
   sp_mapdb_rule_match ipv4_packet rule_S 0x001122334455 0 \<and>
   rule_M \<in> set (prec_map table_SMAB 15) \<and> classifier_type rule_M = SP_RULE_TYPE_MESH \<and>
   \<not> sp_mapdb_rule_match ipv4_packet rule_M 0x001122334455 0 \<and>
   rule_A \<in> set (prec_map table_SMAB 10) \<and> classifier_type rule_A = SP_RULE_TYPE_MESH \<and>
   sp_mapdb_rule_match ipv4_packet rule_A 0x001122334455 0 \<and>
   rule_B \<in> set (prec_map table_SMAB 3) \<and> classifier_type rule_B = SP_RULE_TYPE_MESH \<and>
   sp_mapdb_rule_match ipv4_packet rule_B 0x001122334455 0 \<and>
   sp_mapdb_ruletable_search table_SMAB ipv4_packet 0x001122334455 0 = 5 \<and>
   rule_output (inner rule_A) = 5 \<and> rule_output (inner rule_S) = 7 \<and>
   rule_output (inner rule_M) = 6 \<and> rule_output (inner rule_B) = 2 \<and>
   sp_mapdb_ruletable_search table_SMA ipv4_packet 0x001122334455 0 =
     sp_mapdb_ruletable_search table_SMAB ipv4_packet 0x001122334455 0"
proof -
  have c: "rule_count table_SMAB \<noteq> 0" by (simp add: table_SMAB_eq)
  have m: "rule_S \<in> set (prec_map table_SMAB 20)" "rule_M \<in> set (prec_map table_SMAB 15)"
    "rule_A \<in> set (prec_map table_SMAB 10)" "rule_B \<in> set (prec_map table_SMAB 3)"
    by (simp_all add: table_SMAB_eq)
  have ty: "classifier_type rule_S \<noteq> SP_RULE_TYPE_MESH"
    "classifier_type rule_M = SP_RULE_TYPE_MESH" "classifier_type rule_A = SP_RULE_TYPE_MESH"
    "classifier_type rule_B = SP_RULE_TYPE_MESH"
    by (simp_all add: rule_S_def rule_M_def rule_A_def rule_B_def SP_RULE_TYPE_MESH_def
          SP_RULE_TYPE_SAWF_def)
  have h: "sp_mapdb_rule_match ipv4_packet rule_S 0x001122334455 0"
    "sp_mapdb_rule_match ipv4_packet rule_A 0x001122334455 0"
    "sp_mapdb_rule_match ipv4_packet rule_B 0x001122334455 0"
    by (simp_all add: sp_mapdb_rule_match_def rule_S_def rule_A_def rule_B_def
          blank_rule_def SP_RULE_FLAG_MATCH_ALWAYS_TRUE_def)
  have n: "\<not> sp_mapdb_rule_match ipv4_packet rule_M 0x001122334455 0"
    by (simp add: sp_mapdb_rule_match_def rule_match_up_def rule_match_source_mac_def
          ether_addr_equal_def Let_def rule_M_def blank_rule_def mesh_flag_defs)
  have u: "\<forall>i rule. 10 \<le> i \<and> i < SP_MAPDB_RULE_MAX_PRECEDENCENUM \<and>
      rule \<in> set (prec_map table_SMAB i) \<and> classifier_type rule = SP_RULE_TYPE_MESH \<and>
      sp_mapdb_rule_match ipv4_packet rule 0x001122334455 0 \<longrightarrow> rule = rule_A"
    using ty(1) n by (auto simp: table_SMAB_eq split: if_splits)
  have p: "(10::nat) < SP_MAPDB_RULE_MAX_PRECEDENCENUM"
    by (simp add: SP_MAPDB_RULE_MAX_PRECEDENCENUM_def)
  have o: "rule_output (inner rule_A) = 5" "rule_output (inner rule_S) = 7"
    "rule_output (inner rule_M) = 6" "rule_output (inner rule_B) = 2"
    by (simp_all add: rule_A_def rule_S_def rule_M_def rule_B_def blank_rule_def)
  have so: "set_output ipv4_packet 5 = 5"
    by (simp add: set_output_def SP_MAPDB_USE_UP_def SP_MAPDB_USE_DSCP_def
          SP_MAPDB_NO_MATCH_def)
  have cA: "rule_count table_SMA \<noteq> 0"
    and eA: "\<forall>i \<ge> 10. prec_map table_SMA i = prec_map table_SMAB i"
    by (simp_all add: table_SMA_eq table_SMAB_eq)
  note t = mesh_first_match_wins[OF c, of ipv4_packet "0x001122334455" 0]
  from t p m(3) ty(3) h(2) u
  have "sp_mapdb_ruletable_search table_SMAB ipv4_packet 0x001122334455 0 =
      set_output ipv4_packet (rule_output (inner rule_A))"
    by blast
  then have r: "sp_mapdb_ruletable_search table_SMAB ipv4_packet 0x001122334455 0 = 5"
    by (simp add: o so)
  have ex: "\<exists>rule \<in> set (prec_map table_SMAB 10).
      classifier_type rule = SP_RULE_TYPE_MESH \<and>
      sp_mapdb_rule_match ipv4_packet rule 0x001122334455 0"
    using m(3) ty(3) h(2) by blast
  from t p ex cA eA
  have e: "sp_mapdb_ruletable_search table_SMA ipv4_packet 0x001122334455 0 =
     sp_mapdb_ruletable_search table_SMAB ipv4_packet 0x001122334455 0"
    by blast
  from c m ty h n r o e show ?thesis by blast
qed

subsection \<open>The generic matcher, field by field\<close>

lemma and_or_nonzero:
  "(x :: u32) AND (a OR b) \<noteq> 0 \<longleftrightarrow> x AND a \<noteq> 0 \<or> x AND b \<noteq> 0"
  by (auto simp: bit.conj_disj_distrib or_eq_0_iff)

lemma group_flags_iff:
  "fl AND ipv4_group_flags \<noteq> 0 \<longleftrightarrow>
     fl AND SP_RULE_FLAG_MATCH_SRC_IPV4 \<noteq> 0 \<or> fl AND SP_RULE_FLAG_MATCH_DST_IPV4 \<noteq> 0 \<or>
     fl AND SP_RULE_FLAG_MATCH_SRC_PORT \<noteq> 0 \<or> fl AND SP_RULE_FLAG_MATCH_DST_PORT \<noteq> 0 \<or>
     fl AND SP_RULE_FLAG_MATCH_DSCP \<noteq> 0 \<or> fl AND SP_RULE_FLAG_MATCH_PROTOCOL \<noteq> 0"
  unfolding ipv4_group_flags_def and_or_nonzero by blast

lemma match_ports_fields:
  "rule_match_ports rule sp dp =
    (sense_check (flags (inner rule)) SP_RULE_FLAG_MATCH_SRC_PORT SP_RULE_FLAG_MATCH_SRC_PORT_SENSE
       (ntohs sp = src_port (inner rule)) \<and>
     sense_check (flags (inner rule)) SP_RULE_FLAG_MATCH_DST_PORT SP_RULE_FLAG_MATCH_DST_PORT_SENSE
       (ntohs dp = dst_port (inner rule)))"
  by (auto simp: rule_match_ports_def sense_check_def Let_def)

lemma match_l4_fields:
  "rule_match_l4 skb rule =
    ((iph_protocol skb = IPPROTO_TCP \<longrightarrow> pskb_may_pull skb sizeof_tcphdr) \<and>
     (iph_protocol skb = IPPROTO_UDP \<longrightarrow> pskb_may_pull skb sizeof_udphdr) \<and>
     rule_match_ports rule (l4_src_port skb) (l4_dst_port skb))"
  by (auto simp: rule_match_l4_def l4_src_port_def l4_dst_port_def IPPROTO_TCP_def IPPROTO_UDP_def)

lemma match_dscp_fields:
  "rule_match_dscp skb rule =
    (let fl = flags (inner rule) in
     sense_check fl SP_RULE_FLAG_MATCH_DSCP SP_RULE_FLAG_MATCH_DSCP_SENSE
          ((ucast (drop_bit 2 (iph_tos skb)) :: u16) = ucast (dscp (inner rule))) \<and>
        sense_check fl SP_RULE_FLAG_MATCH_SRC_IPV4 SP_RULE_FLAG_MATCH_SRC_IPV4_SENSE
          (iph_saddr skb = src_ipv4_addr (inner rule)) \<and>
        sense_check fl SP_RULE_FLAG_MATCH_DST_IPV4 SP_RULE_FLAG_MATCH_DST_IPV4_SENSE
          (iph_daddr skb = dst_ipv4_addr (inner rule)) \<and>
        sense_check fl SP_RULE_FLAG_MATCH_PROTOCOL SP_RULE_FLAG_MATCH_PROTOCOL_SENSE
          (iph_protocol skb = protocol_number (inner rule)) \<and>
        rule_match_l4 skb rule)"
  unfolding rule_match_dscp_def rule_match_src_ipv4_def rule_match_dst_ipv4_def
    rule_match_protocol_def sense_check_def Let_def
  by (simp only: if_bool_eq_conj) blast

lemma match_ip_hdr_fields:
  "rule_match_ip_hdr skb rule =
    (flags (inner rule) AND ipv4_group_flags \<noteq> 0 \<longrightarrow>
        skb_protocol skb = ntohs (word_of_int ETH_P_IP) \<and>
        pskb_may_pull skb sizeof_iphdr \<and> rule_match_dscp skb rule)"
  by (auto simp: rule_match_ip_hdr_def ipv4_group_flags_def Let_def)

lemma match_up_fields:
  "rule_match_up skb rule smac dmac =
    (let fl = flags (inner rule) in
     sense_check fl SP_RULE_FLAG_MATCH_UP SP_RULE_FLAG_MATCH_UP_SENSE
       (skb_priority skb = ucast (user_priority (inner rule))) \<and>
     sense_check fl SP_RULE_FLAG_MATCH_SOURCE_MAC SP_RULE_FLAG_MATCH_SOURCE_MAC_SENSE
       (smac = sa (inner rule)) \<and>
     sense_check fl SP_RULE_FLAG_MATCH_DST_MAC SP_RULE_FLAG_MATCH_DST_MAC_SENSE
       (dmac = da (inner rule)) \<and>
     (fl AND SP_RULE_FLAG_MATCH_VLAN_ID \<noteq> 0 \<longrightarrow>
        uint (ntohs (eth_h_proto skb)) = ETH_P_8021Q) \<and>
     sense_check fl SP_RULE_FLAG_MATCH_VLAN_ID SP_RULE_FLAG_MATCH_VLAN_ID_SENSE
       (sint (ntohs (vlan_h_TCI skb)) = uint (vlan_id (inner rule))) \<and>
     rule_match_ip_hdr skb rule)"
  unfolding rule_match_up_def rule_match_source_mac_def rule_match_dst_mac_def
    rule_match_vlan_id_def sense_check_def Let_def ether_addr_equal_def
  by (simp only: if_bool_eq_conj) blast

lemma rule_match_fields:
  assumes "flags (inner rule) AND SP_RULE_FLAG_MATCH_ALWAYS_TRUE = 0"
  shows "sp_mapdb_rule_match skb rule smac dmac = mesh_fields_satisfied skb rule smac dmac"
  using assms
  unfolding sp_mapdb_rule_match_def mesh_fields_satisfied_def match_up_fields
    match_ip_hdr_fields match_dscp_fields match_l4_fields match_ports_fields Let_def
  by auto


text \<open>
  Claim C3. For a rule with the source-MAC flag and its sense flag set, the source-MAC
  check lets the match go on to the next check exactly when the packet's source MAC
  differs from the rule's, and ends it with no-match when they are equal; so, where the
  check is reached (no always-true flag), equal addresses give no-match, and after a
  passed priority check the matcher's answer is "addresses differ, and the remaining
  checks pass". Generally, without the always-true flag, the matcher answers yes exactly
  when every active field has \<open>compare_result XOR sense\<close> true (and the frame has the
  headers that the active fields need).
\<close>

theorem sense_bit_source_mac:
  assumes "flags (inner rule) AND SP_RULE_FLAG_MATCH_SOURCE_MAC \<noteq> 0"
    and "flags (inner rule) AND SP_RULE_FLAG_MATCH_SOURCE_MAC_SENSE \<noteq> 0"
  shows "rule_match_source_mac skb rule smac dmac =
           (smac \<noteq> sa (inner rule) \<and> rule_match_dst_mac skb rule dmac) \<and>
         (flags (inner rule) AND SP_RULE_FLAG_MATCH_ALWAYS_TRUE = 0 \<and> smac = sa (inner rule) \<longrightarrow>
            \<not> sp_mapdb_rule_match skb rule smac dmac) \<and>
         (flags (inner rule) AND SP_RULE_FLAG_MATCH_ALWAYS_TRUE = 0 \<and>
          sense_check (flags (inner rule)) SP_RULE_FLAG_MATCH_UP SP_RULE_FLAG_MATCH_UP_SENSE
            (skb_priority skb = ucast (user_priority (inner rule))) \<longrightarrow>
            sp_mapdb_rule_match skb rule smac dmac =
              (smac \<noteq> sa (inner rule) \<and> rule_match_dst_mac skb rule dmac)) \<and>
         (flags (inner rule) AND SP_RULE_FLAG_MATCH_ALWAYS_TRUE = 0 \<longrightarrow>
            sp_mapdb_rule_match skb rule smac dmac = mesh_fields_satisfied skb rule smac dmac)"
proof -
  have 1: "rule_match_source_mac skb rule smac dmac =
           (smac \<noteq> sa (inner rule) \<and> rule_match_dst_mac skb rule dmac)"
    using assms by (simp add: rule_match_source_mac_def Let_def ether_addr_equal_def)
  have 2: "\<not> sp_mapdb_rule_match skb rule smac dmac"
    if "flags (inner rule) AND SP_RULE_FLAG_MATCH_ALWAYS_TRUE = 0" "smac = sa (inner rule)"
    using that 1 by (simp add: sp_mapdb_rule_match_def rule_match_up_def Let_def)
  have 3: "sp_mapdb_rule_match skb rule smac dmac =
              (smac \<noteq> sa (inner rule) \<and> rule_match_dst_mac skb rule dmac)"
    if "flags (inner rule) AND SP_RULE_FLAG_MATCH_ALWAYS_TRUE = 0"
       "sense_check (flags (inner rule)) SP_RULE_FLAG_MATCH_UP SP_RULE_FLAG_MATCH_UP_SENSE
            (skb_priority skb = ucast (user_priority (inner rule)))"
    using that 1 by (auto simp: sp_mapdb_rule_match_def rule_match_up_def Let_def sense_check_def)
  have 4: "sp_mapdb_rule_match skb rule smac dmac = mesh_fields_satisfied skb rule smac dmac"
    if "flags (inner rule) AND SP_RULE_FLAG_MATCH_ALWAYS_TRUE = 0"
    using that by (rule rule_match_fields)
  from 1 2 3 4 show ?thesis by blast
qed

text \<open>
  Witness for C3: the rule "source MAC is not 00:11:22:33:44:55" does not match a packet
  from that address and matches one from 0a:0b:0c:0d:0e:0f.
\<close>

theorem sense_bit_source_mac_witness:
  "flags (inner not_from_mac_rule) AND SP_RULE_FLAG_MATCH_SOURCE_MAC \<noteq> 0 \<and>
   flags (inner not_from_mac_rule) AND SP_RULE_FLAG_MATCH_SOURCE_MAC_SENSE \<noteq> 0 \<and>
   flags (inner not_from_mac_rule) AND SP_RULE_FLAG_MATCH_ALWAYS_TRUE = 0 \<and>
   \<not> sp_mapdb_rule_match ipv4_packet not_from_mac_rule 0x001122334455 0 \<and>
   sp_mapdb_rule_match ipv4_packet not_from_mac_rule 0x0A0B0C0D0E0F 0"
proof -
  have f: "flags (inner not_from_mac_rule) AND SP_RULE_FLAG_MATCH_SOURCE_MAC \<noteq> 0"
    "flags (inner not_from_mac_rule) AND SP_RULE_FLAG_MATCH_SOURCE_MAC_SENSE \<noteq> 0"
    "flags (inner not_from_mac_rule) AND SP_RULE_FLAG_MATCH_ALWAYS_TRUE = 0"
    by (simp_all add: not_from_mac_rule_def blank_rule_def mesh_flag_defs)
  have u: "sense_check (flags (inner not_from_mac_rule)) SP_RULE_FLAG_MATCH_UP
      SP_RULE_FLAG_MATCH_UP_SENSE c" for c
    by (simp add: sense_check_def not_from_mac_rule_def blank_rule_def mesh_flag_defs)
  have s: "sa (inner not_from_mac_rule) = 0x001122334455"
    by (simp add: not_from_mac_rule_def blank_rule_def)
  have r: "rule_match_dst_mac ipv4_packet not_from_mac_rule 0"
    by (simp add: rule_match_dst_mac_def rule_match_vlan_id_def rule_match_ip_hdr_def Let_def
          not_from_mac_rule_def blank_rule_def mesh_flag_defs)
  note t = sense_bit_source_mac[OF f(1,2)]
  from t[where smac = "0x001122334455" and skb = ipv4_packet and dmac = 0] f(3) s
  have a: "\<not> sp_mapdb_rule_match ipv4_packet not_from_mac_rule 0x001122334455 0" by simp
  from t[where smac = "0x0A0B0C0D0E0F" and skb = ipv4_packet and dmac = 0] f(3) s u r
  have b: "sp_mapdb_rule_match ipv4_packet not_from_mac_rule 0x0A0B0C0D0E0F 0" by simp
  from f a b show ?thesis by blast
qed

text \<open>
  Claim C6 fails as stated: the rule "source port is not 80" has the source-port flag
  active, the packet is IPv4 with IP protocol 1 (neither TCP nor UDP), and the matcher
  reports a match. For such a packet the ports stay 0 (line 297) and the port checks run
  on them.
\<close>

theorem port_flag_counterexample:
  "classifier_type not_port80_rule = SP_RULE_TYPE_MESH \<and>
   flags (inner not_port80_rule) AND SP_RULE_FLAG_MATCH_SRC_PORT \<noteq> 0 \<and>
   skb_protocol ipv4_packet = ntohs (word_of_int ETH_P_IP) \<and>
   pskb_may_pull ipv4_packet sizeof_iphdr \<and>
   iph_protocol ipv4_packet \<noteq> IPPROTO_TCP \<and> iph_protocol ipv4_packet \<noteq> IPPROTO_UDP \<and>
   sp_mapdb_rule_match ipv4_packet not_port80_rule 0 0"
  by (simp add: not_port80_rule_def blank_rule_def ipv4_packet_def mesh_flag_defs
        sp_mapdb_rule_match_def rule_match_up_def rule_match_source_mac_def
        rule_match_dst_mac_def rule_match_vlan_id_def rule_match_ip_hdr_def
        rule_match_dscp_def rule_match_src_ipv4_def rule_match_dst_ipv4_def
        rule_match_protocol_def rule_match_l4_def rule_match_ports_def Let_def
        ntohs_def ETH_P_IP_def pskb_may_pull_def sizeof_iphdr_def IPPROTO_TCP_def
        IPPROTO_UDP_def)

text \<open>
  Claim C6, amended. For every MESH rule without the always-true flag: with any flag of
  the IPv4 group active (source or destination IPv4, source or destination port, DSCP,
  protocol), a frame that is not IPv4, or whose IP header cannot be pulled, or that is TCP
  or UDP without its header, reports no-match; and when a rule with a port flag matches
  an IPv4 packet that is neither TCP nor UDP, its active port checks have passed against
  port 0.
\<close>

theorem ip_group_flags_need_ipv4:
  assumes "flags (inner rule) AND SP_RULE_FLAG_MATCH_ALWAYS_TRUE = 0"
  shows "((flags (inner rule) AND SP_RULE_FLAG_MATCH_SRC_IPV4 \<noteq> 0 \<or>
           flags (inner rule) AND SP_RULE_FLAG_MATCH_DST_IPV4 \<noteq> 0 \<or>
           flags (inner rule) AND SP_RULE_FLAG_MATCH_SRC_PORT \<noteq> 0 \<or>
           flags (inner rule) AND SP_RULE_FLAG_MATCH_DST_PORT \<noteq> 0 \<or>
           flags (inner rule) AND SP_RULE_FLAG_MATCH_DSCP \<noteq> 0 \<or>
           flags (inner rule) AND SP_RULE_FLAG_MATCH_PROTOCOL \<noteq> 0) \<and>
          (skb_protocol skb \<noteq> ntohs (word_of_int ETH_P_IP) \<or>
           \<not> pskb_may_pull skb sizeof_iphdr \<or>
           (iph_protocol skb = IPPROTO_TCP \<and> \<not> pskb_may_pull skb sizeof_tcphdr) \<or>
           (iph_protocol skb = IPPROTO_UDP \<and> \<not> pskb_may_pull skb sizeof_udphdr)) \<longrightarrow>
            \<not> sp_mapdb_rule_match skb rule smac dmac) \<and>
         ((flags (inner rule) AND SP_RULE_FLAG_MATCH_SRC_PORT \<noteq> 0 \<or>
           flags (inner rule) AND SP_RULE_FLAG_MATCH_DST_PORT \<noteq> 0) \<and>
          iph_protocol skb \<noteq> IPPROTO_TCP \<and> iph_protocol skb \<noteq> IPPROTO_UDP \<and>
          sp_mapdb_rule_match skb rule smac dmac \<longrightarrow>
            sense_check (flags (inner rule)) SP_RULE_FLAG_MATCH_SRC_PORT
              SP_RULE_FLAG_MATCH_SRC_PORT_SENSE (0 = src_port (inner rule)) \<and>
            sense_check (flags (inner rule)) SP_RULE_FLAG_MATCH_DST_PORT
              SP_RULE_FLAG_MATCH_DST_PORT_SENSE (0 = dst_port (inner rule)))"
proof -
  have z: "ntohs 0 = 0" by (simp add: ntohs_def)
  have m: "sp_mapdb_rule_match skb rule smac dmac = mesh_fields_satisfied skb rule smac dmac"
    using assms by (rule rule_match_fields)
  show ?thesis
    unfolding m mesh_fields_satisfied_def Let_def group_flags_iff l4_src_port_def l4_dst_port_def
    using z by auto
qed

text \<open>
  Witness for the amended C6: the rule "source port is not 80" does not match an ARP
  frame.
\<close>

theorem ip_group_flags_need_ipv4_witness:
  "flags (inner not_port80_rule) AND SP_RULE_FLAG_MATCH_ALWAYS_TRUE = 0 \<and>
   flags (inner not_port80_rule) AND SP_RULE_FLAG_MATCH_SRC_PORT \<noteq> 0 \<and>
   skb_protocol arp_frame \<noteq> ntohs (word_of_int ETH_P_IP) \<and>
   \<not> sp_mapdb_rule_match arp_frame not_port80_rule 0 0"
proof -
  have a: "flags (inner not_port80_rule) AND SP_RULE_FLAG_MATCH_ALWAYS_TRUE = 0"
    and p: "flags (inner not_port80_rule) AND SP_RULE_FLAG_MATCH_SRC_PORT \<noteq> 0"
    by (simp_all add: not_port80_rule_def blank_rule_def mesh_flag_defs)
  have n: "skb_protocol arp_frame \<noteq> ntohs (word_of_int ETH_P_IP)"
    by (simp add: arp_frame_def ipv4_packet_def ntohs_def ETH_P_IP_def)
  from ip_group_flags_need_ipv4[OF a, where skb = arp_frame and smac = 0 and dmac = 0] a p n show ?thesis by blast
qed

subsection \<open>MSCS classification\<close>

lemmas sawf_match_defs = sp_mapdb_rule_match_sawf_def match_sawf_dst_mac_def
  match_sawf_dst_port_def match_sawf_dst_port_range_def match_sawf_dst_ipv4_def
  match_sawf_source_mac_def match_sawf_src_ipv6_def match_sawf_dst_ipv6_def
  match_sawf_src_port_def match_sawf_src_port_range_def match_sawf_src_ipv4_def
  match_sawf_protocol_def match_sawf_dscp_def match_sawf_vlan_pcp_def
  match_sawf_vlan_id_def match_sawf_spi_def











lemma mscs_loop_all_empty:
  "(\<And>i. i < n \<Longrightarrow> pm i = []) \<Longrightarrow> apply_mscs_loop skb params pm n = Inr (None, params)"
  by (induction n) simp_all

lemma mscs_loop_skip_empty:
  "p < n \<Longrightarrow> (\<And>i. p < i \<Longrightarrow> i < n \<Longrightarrow> pm i = []) \<Longrightarrow>
   apply_mscs_loop skb params pm n = apply_mscs_loop skb params pm (Suc p)"
proof (induction n)
  case 0
  then show ?case by simp
next
  case (Suc n)
  show ?case
  proof (cases "p = n")
    case True
    then show ?thesis by simp
  next
    case False
    with Suc.prems have pn: "p < n" by simp
    with Suc.prems(2)[of n] have "pm n = []" by simp
    with Suc.IH[OF pn] Suc.prems(2) show ?thesis by simp
  qed
qed

lemma mscs_loop_at:
  assumes "p < n" "\<And>i. p < i \<Longrightarrow> i < n \<Longrightarrow> pm i = []"
  shows "apply_mscs_loop skb params pm n =
    (case apply_mscs_bucket skb params (pm p) of
       Inl fault \<Rightarrow> Inl fault
     | Inr (Some out, params') \<Rightarrow> Inr (Some out, params')
     | Inr (None, params') \<Rightarrow> apply_mscs_loop skb params' pm p)"
proof -
  have "apply_mscs_loop skb params pm n = apply_mscs_loop skb params pm (Suc p)"
    using assms by (rule mscs_loop_skip_empty)
  then show ?thesis by (simp only: apply_mscs_loop.simps)
qed


lemma host_table_eq:
  "host_table = \<lparr>prec_map = (\<lambda>i. [])(5 := [host_rule]), rule_id_hashmap = [host_rule],
      rule_count = 1, single_writer = False\<rparr>"
  by (simp add: host_table_def run_defs host_rule_def blank_rule_def)

lemma subnet_host_table_eq:
  "subnet_host_table = \<lparr>prec_map = (\<lambda>i. [])(5 := [host_rule], 10 := [subnet_rule]),
      rule_id_hashmap = [subnet_rule, host_rule], rule_count = 2, single_writer = False\<rparr>"
  by (simp add: subnet_host_table_def run_defs host_rule_def subnet_rule_def blank_rule_def)





subsection \<open>The SAWF-family matcher writes to its input\<close>

lemma subnet_eval:
  "sp_mapdb_rule_match_sawf subnet_rule sawf_params =
     (False, sawf_params\<lparr>dst := (dst sawf_params)\<lparr>ipv4_addr := 0xC0A80100\<rparr>\<rparr>)"
  by (simp add: sawf_match_defs Let_def subnet_rule_def blank_rule_def sawf_params_def
        blank_params_def sawf_flag_defs)

lemma host_eval:
  "sp_mapdb_rule_match_sawf host_rule sawf_params = (True, sawf_params)"
  by (simp add: sawf_match_defs Let_def host_rule_def blank_rule_def sawf_params_def
        blank_params_def sawf_flag_defs)

lemma host_eval2:
  "sp_mapdb_rule_match_sawf host_rule
     (sawf_params\<lparr>dst := (dst sawf_params)\<lparr>ipv4_addr := 0xC0A80100\<rparr>\<rparr>) =
   (False, sawf_params\<lparr>dst := (dst sawf_params)\<lparr>ipv4_addr := 0xC0A80100\<rparr>\<rparr>)"
  by (simp add: sawf_match_defs Let_def host_rule_def blank_rule_def sawf_params_def
        blank_params_def sawf_flag_defs)

text \<open>
  Claim C5 says that no matcher changes the caller's packet fields. The generic matcher
  has no way to (it returns a boolean only), but \<^verbatim>\<open>sp_mapdb_rule_match_sawf\<close> stores the
  masked address back: on the subnet rule and a packet with destination \<^verbatim>\<open>0xC0A80105\<close>
  it answers no and leaves \<^verbatim>\<open>0xC0A80100\<close> in the caller's parameters. The scan hands
  the same parameters to the next rule: the host rule, which the packet matches and
  which alone classifies it, no longer matches once the subnet rule has been tried.
\<close>

theorem match_sawf_overwrites_params:
  "sp_mapdb_rule_match_sawf subnet_rule sawf_params =
     (False, sawf_params\<lparr>dst := (dst sawf_params)\<lparr>ipv4_addr := 0xC0A80100\<rparr>\<rparr>) \<and>
   ipv4_addr (dst sawf_params) = 0xC0A80105 \<and>
   snd (sp_mapdb_rule_match_sawf subnet_rule sawf_params) \<noteq> sawf_params \<and>
   sp_mapdb_rule_match_sawf host_rule sawf_params = (True, sawf_params) \<and>
   sp_mapdb_apply_mscs host_table prio2_packet sawf_params =
     Inr (\<lparr>priority = 2, rule_id = id_rule host_rule\<rparr>, sawf_params) \<and>
   sp_mapdb_apply_mscs subnet_host_table prio2_packet sawf_params =
     Inr (\<lparr>priority = SP_RULE_INVALID_PRIORITY, rule_id = SP_RULE_INVALID_RULE_ID\<rparr>,
          sawf_params\<lparr>dst := (dst sawf_params)\<lparr>ipv4_addr := 0xC0A80100\<rparr>\<rparr>)"
proof -
  define masked where
    "masked = sawf_params\<lparr>dst := (dst sawf_params)\<lparr>ipv4_addr := 0xC0A80100\<rparr>\<rparr>"
  have a: "ipv4_addr (dst sawf_params) = 0xC0A80105"
    by (simp add: sawf_params_def blank_params_def)
  have s: "sp_mapdb_rule_match_sawf subnet_rule sawf_params = (False, masked)"
    by (simp add: subnet_eval masked_def)
  have "ipv4_addr (dst masked) \<noteq> ipv4_addr (dst sawf_params)"
    by (simp add: masked_def a)
  then have n: "masked \<noteq> sawf_params" by auto
  have h: "sp_mapdb_rule_match_sawf host_rule sawf_params = (True, sawf_params)"
    by (rule host_eval)
  have h2: "sp_mapdb_rule_match_sawf host_rule masked = (False, masked)"
    by (simp add: host_eval2 masked_def)
  have ty: "classifier_type host_rule = SP_RULE_TYPE_MSCS"
    "classifier_type subnet_rule = SP_RULE_TYPE_MSCS"
    by (simp_all add: host_rule_def subnet_rule_def)
  have p2: "unat (skb_priority prio2_packet) < 32" by (simp add: prio2_packet_def)
  have bm: "mscs_tid_bitmap (inner host_rule) \<noteq> SP_RULE_INVALID_MSCS_TID_BITMAP"
    "mscs_tid_bit (skb_priority prio2_packet) (mscs_tid_bitmap (inner host_rule)) = Inr True"
    by (simp_all add: host_rule_def blank_rule_def SP_RULE_INVALID_MSCS_TID_BITMAP_def
          mscs_tid_bit_def prio2_packet_def)
  have u: "ucast (skb_priority prio2_packet) = (2 :: u8)"
    by (simp add: prio2_packet_def)
  have l1: "apply_mscs_loop prio2_packet sawf_params (prec_map host_table)
      SP_MAPDB_RULE_MAX_PRECEDENCENUM =
      (case apply_mscs_bucket prio2_packet sawf_params (prec_map host_table 5) of
         Inl fault \<Rightarrow> Inl fault
       | Inr (Some out, params') \<Rightarrow> Inr (Some out, params')
       | Inr (None, params') \<Rightarrow> apply_mscs_loop prio2_packet params' (prec_map host_table) 5)"
    by (intro mscs_loop_at)
       (simp_all add: host_table_eq SP_MAPDB_RULE_MAX_PRECEDENCENUM_def)
  have b: "apply_mscs_bucket prio2_packet sawf_params (prec_map host_table 5) =
      Inr (Some \<lparr>priority = 2, rule_id = id_rule host_rule\<rparr>, sawf_params)"
    using h ty bm u by (simp add: host_table_eq)
  have r1: "sp_mapdb_apply_mscs host_table prio2_packet sawf_params =
     Inr (\<lparr>priority = 2, rule_id = id_rule host_rule\<rparr>, sawf_params)"
    by (simp add: sp_mapdb_apply_mscs_def Let_def l1 b) (simp add: host_table_eq)
  have l2: "apply_mscs_loop prio2_packet sawf_params (prec_map subnet_host_table)
      SP_MAPDB_RULE_MAX_PRECEDENCENUM =
      (case apply_mscs_bucket prio2_packet sawf_params (prec_map subnet_host_table 10) of
         Inl fault \<Rightarrow> Inl fault
       | Inr (Some out, params') \<Rightarrow> Inr (Some out, params')
       | Inr (None, params') \<Rightarrow>
           apply_mscs_loop prio2_packet params' (prec_map subnet_host_table) 10)"
    by (intro mscs_loop_at)
       (simp_all add: subnet_host_table_eq SP_MAPDB_RULE_MAX_PRECEDENCENUM_def)
  have l3: "apply_mscs_loop prio2_packet masked (prec_map subnet_host_table) 10 =
      (case apply_mscs_bucket prio2_packet masked (prec_map subnet_host_table 5) of
         Inl fault \<Rightarrow> Inl fault
       | Inr (Some out, params') \<Rightarrow> Inr (Some out, params')
       | Inr (None, params') \<Rightarrow>
           apply_mscs_loop prio2_packet params' (prec_map subnet_host_table) 5)"
    by (intro mscs_loop_at) (simp_all add: subnet_host_table_eq)
  have l4: "apply_mscs_loop prio2_packet masked (prec_map subnet_host_table) 5 =
      Inr (None, masked)"
    by (intro mscs_loop_all_empty) (simp add: subnet_host_table_eq)
  have b10: "apply_mscs_bucket prio2_packet sawf_params (prec_map subnet_host_table 10) =
      Inr (None, masked)"
    using s ty by (simp add: subnet_host_table_eq)
  have b5: "apply_mscs_bucket prio2_packet masked (prec_map subnet_host_table 5) =
      Inr (None, masked)"
    using h2 ty by (simp add: subnet_host_table_eq)
  have r2: "sp_mapdb_apply_mscs subnet_host_table prio2_packet sawf_params =
     Inr (\<lparr>priority = SP_RULE_INVALID_PRIORITY, rule_id = SP_RULE_INVALID_RULE_ID\<rparr>, masked)"
    by (simp add: sp_mapdb_apply_mscs_def Let_def l2 b10 l3 b5 l4)
       (simp add: subnet_host_table_eq)
  from s n a h r1 r2 show ?thesis by (simp add: masked_def)
qed

end
